theory Spec2Isabelle
  imports Complex_Main "HOL-Library.Finite_Map" "HOL-Library.Sublist"
begin

section \<open>JavaScript values held by the program\<close>

text \<open>
  The program (\<^verbatim>\<open>src/npm-statistic.js\<close>) works on documents produced by \<^verbatim>\<open>JSON.parse\<close>.
  A number is an IEEE double; every finite double is a rational, so \<open>Finite q\<close> covers
  them (the sign of zero is not observable by this program and is not kept).
  A string is a list of code units (one \<open>char\<close> stands for one code unit).
  An object is a finite map from property names to values: \<^verbatim>\<open>JSON.parse\<close> creates every
  member, also \<^verbatim>\<open>__proto__\<close>, as an own data property. The order of the properties is
  not observable through the value and is not kept.
  The value \<^verbatim>\<open>undefined\<close> is never part of a document: a variable that may hold it has
  type \<open>json option\<close>, with \<open>None\<close> for \<^verbatim>\<open>undefined\<close>.
\<close>

datatype number = Finite rat | PosInfinity | NegInfinity | NaN

datatype json =
    JNull
  | JBool bool
  | JNum number
  | JStr string
  | JArr "json list"
  | JObj "(string, json) fmap"

type_synonym jsvalue = "json option"

text \<open>An exception that leaves a function of the program uncaught.\<close>

datatype error = TypeError | RangeError | SystemError

text \<open>\<^verbatim>\<open>!v\<close> is \<open>\<not> truthy v\<close>; \<^verbatim>\<open>typeof v\<close>.\<close>

fun truthy :: "jsvalue \<Rightarrow> bool" where
  "truthy None = False"
| "truthy (Some JNull) = False"
| "truthy (Some (JBool b)) = b"
| "truthy (Some (JNum n)) = (n \<noteq> Finite 0 \<and> n \<noteq> NaN)"
| "truthy (Some (JStr s)) = (s \<noteq> [])"
| "truthy (Some (JArr xs)) = True"
| "truthy (Some (JObj m)) = True"

fun typeof :: "jsvalue \<Rightarrow> string" where
  "typeof None = ''undefined''"
| "typeof (Some JNull) = ''object''"
| "typeof (Some (JBool b)) = ''boolean''"
| "typeof (Some (JNum n)) = ''number''"
| "typeof (Some (JStr s)) = ''string''"
| "typeof (Some (JArr xs)) = ''object''"
| "typeof (Some (JObj m)) = ''object''"

subsection \<open>Property keys that are indices\<close>

text \<open>
  \<open>decimal n\<close> is the string form of the non-negative integer \<open>n\<close>. A property key is an
  integer index when it is the string form of its own numeric value
  (\<^verbatim>\<open>ToString(ToNumber(key)) = key\<close>): \<^verbatim>\<open>"0"\<close>, \<^verbatim>\<open>"7"\<close>, \<^verbatim>\<open>"12"\<close>, but not
  \<^verbatim>\<open>"01"\<close>, \<^verbatim>\<open>"+1"\<close> or \<^verbatim>\<open>""\<close>.
\<close>

definition digit_of :: "nat \<Rightarrow> char" where
  "digit_of d = ''0123456789'' ! d"

fun decimal :: "nat \<Rightarrow> string" where
  "decimal n = (if n < 10 then [digit_of n] else decimal (n div 10) @ [digit_of (n mod 10)])"

declare decimal.simps [simp del]

definition digit_value :: "char \<Rightarrow> nat" where
  "digit_value c = of_char c - 48"

definition numeral_value :: "string \<Rightarrow> nat" where
  "numeral_value s = foldl (\<lambda>n c. 10 * n + digit_value c) 0 s"

definition canonical_index :: "string \<Rightarrow> nat option" where
  "canonical_index k = (let i = numeral_value k in if decimal i = k then Some i else None)"

subsection \<open>Own properties\<close>

text \<open>
  \<open>own v k\<close> is the value of the own property \<open>k\<close> of \<open>v\<close> (after \<^verbatim>\<open>ToObject\<close>), \<open>None\<close>
  when \<open>v\<close> has no own property of that name. An array owns its indices below its length
  and \<^verbatim>\<open>length\<close> (a parsed array has no holes); a string owns the indices of its code
  units and \<^verbatim>\<open>length\<close>; the wrapper of a number or a boolean owns nothing.
\<close>

fun own :: "json \<Rightarrow> string \<Rightarrow> json option" where
  "own (JObj m) k = fmlookup m k"
| "own (JArr xs) k =
     (if k = ''length'' then Some (JNum (Finite (of_nat (length xs))))
      else case canonical_index k of
             Some i \<Rightarrow> if i < length xs then Some (xs ! i) else None
           | None \<Rightarrow> None)"
| "own (JStr s) k =
     (if k = ''length'' then Some (JNum (Finite (of_nat (length s))))
      else case canonical_index k of
             Some i \<Rightarrow> if i < length s then Some (JStr [s ! i]) else None
           | None \<Rightarrow> None)"
| "own JNull k = None"
| "own (JBool b) k = None"
| "own (JNum n) k = None"

text \<open>
  \<^verbatim>\<open>hasOwn.call(v, k)\<close>, where \<^verbatim>\<open>hasOwn\<close> is \<^verbatim>\<open>Object.prototype.hasOwnProperty\<close>
  (line 72): it throws a TypeError on \<^verbatim>\<open>null\<close> and \<^verbatim>\<open>undefined\<close>.
\<close>

fun hasOwn :: "jsvalue \<Rightarrow> string \<Rightarrow> error + bool" where
  "hasOwn None k = Inl TypeError"
| "hasOwn (Some JNull) k = Inl TypeError"
| "hasOwn (Some v) k = Inr (own v k \<noteq> None)"

text \<open>
  The property read \<^verbatim>\<open>v[k]\<close>: a TypeError on \<^verbatim>\<open>null\<close> and \<^verbatim>\<open>undefined\<close>, the own
  property otherwise. The program reads \<^verbatim>\<open>v[k]\<close> only after \<^verbatim>\<open>hasOwn.call(v, k)\<close>, and
  reads the fixed names \<^verbatim>\<open>packages\<close> and \<^verbatim>\<open>name\<close>, which no built-in prototype defines;
  so the prototype chain never contributes.
\<close>

fun member :: "jsvalue \<Rightarrow> string \<Rightarrow> error + jsvalue" where
  "member None k = Inl TypeError"
| "member (Some JNull) k = Inl TypeError"
| "member (Some v) k = Inr (own v k)"

section \<open>The path resolver\<close>

text \<open>
  Lines 80-90:
  \<^verbatim>\<open>
  const getJsonPart = (json, keys) => {
    let value = json, key;
    for (key of keys) {
      if (value && hasOwn.call(value, key)) {
        value = value[key];
      } else {
        return undefined;
      }
    }
    return value;
  }
  \<close>
\<close>

fun getJsonPart :: "jsvalue \<Rightarrow> string list \<Rightarrow> error + jsvalue" where
  "getJsonPart value [] = Inr value"
| "getJsonPart value (key # keys) =
     (if truthy value then
        (case hasOwn value key of
           Inl e \<Rightarrow> Inl e
         | Inr has \<Rightarrow>
             if has then
               (case member value key of
                  Inl e \<Rightarrow> Inl e
                | Inr value' \<Rightarrow> getJsonPart value' keys)
             else Inr None)
      else Inr None)"

section \<open>The environment: files, console, network, built-ins\<close>

text \<open>
  The file system is a map from path names, compared as written, to entries. The working
  directory exists and can be written. \<open>stdout\<close> and \<open>stderr\<close> collect the lines of
  \<^verbatim>\<open>console.log\<close> and \<^verbatim>\<open>console.error\<close>. \<open>invoked\<close> is a trace of the command
  handlers that were entered (the names under which \<^verbatim>\<open>COMMANDS\<close> holds them); the program
  itself never reads it.
\<close>

datatype entry = File string | Dir

record world =
  files :: "string \<rightharpoonup> entry"
  stdout :: "string list"
  stderr :: "string list"
  invoked :: "string list"

text \<open>
  The built-ins whose results depend on the decimal form of floating-point numbers, and
  the network, are parameters of the model:
  \<^item> \<open>JSON_parse\<close>: \<^verbatim>\<open>JSON.parse\<close>, \<open>None\<close> when it throws a SyntaxError;
  \<^item> \<open>JSON_stringify\<close>: \<^verbatim>\<open>JSON.stringify\<close> on a document;
  \<^item> \<open>ToNumber_text\<close>: the conversion \<^verbatim>\<open>ToNumber\<close> on strings, arrays and objects
    (it goes through their string form);
  \<^item> \<open>http_get\<close>: \<^verbatim>\<open>http.get(url, updateCallback).on('error', logError)\<close> for the URL
    \<^verbatim>\<open>https://www.npmjs.com/package/${name}\<close>, given \<open>name\<close>: what the call does before
    it returns (it may throw). The response arrives after \<^verbatim>\<open>npmStatistic\<close> has returned.
\<close>

record env =
  JSON_parse :: "string \<Rightarrow> json option"
  JSON_stringify :: "json \<Rightarrow> string"
  ToNumber_text :: "json \<Rightarrow> number"
  http_get :: "jsvalue \<Rightarrow> world \<Rightarrow> error + world"

definition console_log :: "string \<Rightarrow> world \<Rightarrow> world" where
  "console_log line w = w\<lparr>stdout := stdout w @ [line]\<rparr>"

definition console_error :: "string \<Rightarrow> world \<Rightarrow> world" where
  "console_error line w = w\<lparr>stderr := stderr w @ [line]\<rparr>"

text \<open>
  \<^verbatim>\<open>fs.accessSync(p)\<close> returns (\<open>True\<close>) when \<open>p\<close> exists and throws otherwise. A path
  written with a trailing slash names a directory: when the entry is a regular file, the
  check throws (ENOTDIR).
\<close>

definition trailing_slash :: "string \<Rightarrow> bool" where
  "trailing_slash p = (p \<noteq> [] \<and> last p = CHR ''/'')"

definition accessSync :: "string \<Rightarrow> world \<Rightarrow> bool" where
  "accessSync p w =
     (case files w p of
        None \<Rightarrow> False
      | Some Dir \<Rightarrow> True
      | Some (File text) \<Rightarrow> \<not> trailing_slash p)"

text \<open>\<^verbatim>\<open>fs.mkdirSync(p)\<close> throws (EEXIST) when \<open>p\<close> exists, as a directory or as a file.\<close>

definition mkdirSync :: "string \<Rightarrow> world \<Rightarrow> error + world" where
  "mkdirSync p w =
     (if files w p \<noteq> None then Inl SystemError
      else Inr (w\<lparr>files := (files w)(p \<mapsto> Dir)\<rparr>))"

text \<open>The directory part of a path: everything up to and including its last slash.\<close>

definition folder :: "string \<Rightarrow> string" where
  "folder name = rev (dropWhile (\<lambda>c. c \<noteq> CHR ''/'') (rev name))"

text \<open>
  \<^verbatim>\<open>fs.writeFileSync(name, data)\<close> creates or overwrites a file; it throws when the
  directory of \<open>name\<close> is missing or \<open>name\<close> is itself a directory.
\<close>

definition writeFileSync :: "string \<Rightarrow> string \<Rightarrow> world \<Rightarrow> error + world" where
  "writeFileSync name data w =
     (if folder name \<noteq> [] \<and> files w (folder name) \<noteq> Some Dir then Inl SystemError
      else if files w name = Some Dir then Inl SystemError
      else Inr (w\<lparr>files := (files w)(name \<mapsto> File data)\<rparr>))"

definition readFileSync :: "string \<Rightarrow> world \<Rightarrow> error + string" where
  "readFileSync name w =
     (case files w name of Some (File text) \<Rightarrow> Inr text | _ \<Rightarrow> Inl SystemError)"

section \<open>The program\<close>

definition UPDATE :: string where "UPDATE = ''update''"
definition SET :: string where "SET = ''set''"
definition GET :: string where "GET = ''get''"

definition CONFIG :: string where "CONFIG = ''config.json''"
definition STATS :: string where "STATS = ''./stats/''"

text \<open>Lines 57-59: \<^verbatim>\<open>fs.writeFileSync(name, JSON.stringify(data))\<close>.\<close>

definition writeJSON :: "env \<Rightarrow> string \<Rightarrow> json \<Rightarrow> world \<Rightarrow> error + world" where
  "writeJSON E name data w = writeFileSync name (JSON_stringify E data) w"

text \<open>
  Lines 66-70:
  \<^verbatim>\<open>try { return JSON.parse(fs.readFileSync(name, 'utf8')); } catch(e) { return null; }\<close>
\<close>

definition readJSON :: "env \<Rightarrow> string \<Rightarrow> world \<Rightarrow> json" where
  "readJSON E name w =
     (case readFileSync name w of
        Inl e \<Rightarrow> JNull
      | Inr text \<Rightarrow> (case JSON_parse E text of None \<Rightarrow> JNull | Some v \<Rightarrow> v))"

subsection \<open>get\<close>

text \<open>\<^verbatim>\<open>s.split('.')\<close> and \<^verbatim>\<open>keys.join('.')\<close>.\<close>

fun split_dot :: "string \<Rightarrow> string list" where
  "split_dot [] = [[]]"
| "split_dot (c # cs) =
     (if c = CHR ''.'' then [] # split_dot cs
      else (c # hd (split_dot cs)) # tl (split_dot cs))"

fun join_dot :: "string list \<Rightarrow> string" where
  "join_dot [] = []"
| "join_dot [k] = k"
| "join_dot (k # k' # ks) = k @ ''.'' @ join_dot (k' # ks)"

text \<open>
  What \<^verbatim>\<open>console.log(JSON.stringify(v))\<close> prints: \<^verbatim>\<open>JSON.stringify(undefined)\<close> is
  \<^verbatim>\<open>undefined\<close>, printed as the word.
\<close>

definition stringify_value :: "env \<Rightarrow> jsvalue \<Rightarrow> string" where
  "stringify_value E v = (case v of None \<Rightarrow> ''undefined'' | Some d \<Rightarrow> JSON_stringify E d)"

text \<open>
  Lines 97-103:
  \<^verbatim>\<open>
  COMMANDS[GET] = (args, config) => {
    const keys = args[0] === undefined ? [] : args[0].split('.');
    console.log(JSON.stringify(getJsonPart(config, keys)));
  };
  \<close>
\<close>

definition COMMANDS_GET :: "env \<Rightarrow> string list \<Rightarrow> json \<Rightarrow> world \<Rightarrow> error + world" where
  "COMMANDS_GET E args config w =
     (let keys = (case args of [] \<Rightarrow> [] | a # rest \<Rightarrow> split_dot a) in
      case getJsonPart (Some config) keys of
        Inl e \<Rightarrow> Inl e
      | Inr v \<Rightarrow> Inr (console_log (stringify_value E v) w))"

subsection \<open>set\<close>

text \<open>
  The assignment \<^verbatim>\<open>obj[key] = value\<close> (line 133), in strict mode. The result is the
  object as \<^verbatim>\<open>JSON.stringify\<close>, the only reader of the document after the assignment,
  sees it:
  \<^item> on an object, the own property is created or replaced; the key \<^verbatim>\<open>__proto__\<close>, when
    the object does not own it, reaches the accessor of \<^verbatim>\<open>Object.prototype\<close>, which
    changes the prototype or does nothing, and no own property;
  \<^item> on an array, an array index (an integer index below \<open>2\<^sup>3\<^sup>2 - 1\<close>) replaces the
    element or extends the array, the skipped slots being holes, which \<^verbatim>\<open>JSON.stringify\<close>
    writes as \<^verbatim>\<open>null\<close>; \<^verbatim>\<open>length\<close> truncates or extends the array, and throws a
    RangeError unless the value converts to an integer in \<open>[0, 2\<^sup>3\<^sup>2 - 1]\<close>; any other key
    makes a property that \<^verbatim>\<open>JSON.stringify\<close> does not write;
  \<^item> on a primitive, \<^verbatim>\<open>null\<close> or \<^verbatim>\<open>undefined\<close> it throws a TypeError.
\<close>

definition array_index :: "string \<Rightarrow> nat option" where
  "array_index k =
     (case canonical_index k of
        Some i \<Rightarrow> if i < 2 ^ 32 - 1 then Some i else None
      | None \<Rightarrow> None)"

definition ToNumber :: "env \<Rightarrow> json \<Rightarrow> number" where
  "ToNumber E v =
     (case v of
        JNull \<Rightarrow> Finite 0
      | JBool b \<Rightarrow> Finite (if b then 1 else 0)
      | JNum n \<Rightarrow> n
      | _ \<Rightarrow> ToNumber_text E v)"

definition array_length :: "number \<Rightarrow> nat option" where
  "array_length n =
     (case n of
        Finite q \<Rightarrow>
          if q = of_int \<lfloor>q\<rfloor> \<and> 0 \<le> q \<and> q < 2 ^ 32 then Some (nat \<lfloor>q\<rfloor>) else None
      | _ \<Rightarrow> None)"

definition resize :: "nat \<Rightarrow> json list \<Rightarrow> json list" where
  "resize n xs = take n xs @ replicate (n - length xs) JNull"

fun put :: "env \<Rightarrow> jsvalue \<Rightarrow> string \<Rightarrow> json \<Rightarrow> error + json" where
  "put E (Some (JObj m)) key v =
     Inr (if key = ''__proto__'' \<and> fmlookup m key = None then JObj m
          else JObj (fmupd key v m))"
| "put E (Some (JArr xs)) key v =
     (if key = ''length'' then
        (case array_length (ToNumber E v) of
           None \<Rightarrow> Inl RangeError
         | Some n \<Rightarrow> Inr (JArr (resize n xs)))
      else
        (case array_index key of
           Some i \<Rightarrow> Inr (JArr ((resize (max (length xs) (Suc i)) xs)[i := v]))
         | None \<Rightarrow> Inr (JArr xs)))"
| "put E obj key v = Inl TypeError"

text \<open>
  \<^verbatim>\<open>obj\<close> is the object that \<^verbatim>\<open>getJsonPart(config, keys)\<close> found inside \<^verbatim>\<open>config\<close>, and
  the assignment changes it in place. A parsed document is a tree, so \<^verbatim>\<open>config\<close> after
  the assignment is \<^verbatim>\<open>config\<close> with the value at \<open>keys\<close> replaced by the changed object.
\<close>

fun replace_at :: "json \<Rightarrow> string list \<Rightarrow> json \<Rightarrow> json" where
  "replace_at doc [] new = new"
| "replace_at (JObj m) (k # ks) new =
     (case fmlookup m k of
        Some child \<Rightarrow> JObj (fmupd k (replace_at child ks new) m)
      | None \<Rightarrow> JObj m)"
| "replace_at (JArr xs) (k # ks) new =
     (case canonical_index k of
        Some i \<Rightarrow> if i < length xs then JArr (xs[i := replace_at (xs ! i) ks new]) else JArr xs
      | None \<Rightarrow> JArr xs)"
| "replace_at doc (k # ks) new = doc"

definition dquote :: string where
  "dquote = [CHR 0x22]"

text \<open>
  Lines 110-135:
  \<^verbatim>\<open>
  COMMANDS[SET] = (args, config) => {
    if (args.length < 2) {
      console.log(`Not enough args.`);
      return;
    }
    const keys = args[0].split('.'),
          key = keys.pop(),
          obj = getJsonPart(config, keys);
    if (!obj || typeof obj !== 'object') {
      console.log(`Cannot set key "${key}" in "${keys.join('.')}".`);
      return;
    }
    let value;
    try {
      value = JSON.parse(args[1]);
    } catch(e) {
      value = args[1];
    }
    obj[key] = value;
    writeJSON(CONFIG, config);
  };
  \<close>
\<close>

definition COMMANDS_SET :: "env \<Rightarrow> string list \<Rightarrow> json \<Rightarrow> world \<Rightarrow> error + world" where
  "COMMANDS_SET E args config w =
     (if length args < 2 then Inr (console_log ''Not enough args.'' w)
      else
        let keys0 = split_dot (args ! 0);
            key = last keys0;
            keys = butlast keys0
        in case getJsonPart (Some config) keys of
             Inl e \<Rightarrow> Inl e
           | Inr obj \<Rightarrow>
               if \<not> truthy obj \<or> typeof obj \<noteq> ''object'' then
                 Inr (console_log (''Cannot set key '' @ dquote @ key @ dquote @ '' in ''
                        @ dquote @ join_dot keys @ dquote @ ''.'') w)
               else
                 let value = (case JSON_parse E (args ! 1) of
                                Some parsed \<Rightarrow> parsed
                              | None \<Rightarrow> JStr (args ! 1))
                 in (case put E obj key value of
                       Inl e \<Rightarrow> Inl e
                     | Inr obj' \<Rightarrow> writeJSON E CONFIG (replace_at config keys obj') w))"

subsection \<open>update\<close>

text \<open>
  Lines 142-151 and 165-170:
  \<^verbatim>\<open>
  COMMANDS[UPDATE] = (args, config) => {
    const packages = config.packages || [],
          names = packages.map(pack => pack.name);
    for (const name of names) {
      updatePackage(name);
    }
  };
  const updatePackage = name => {
    http.get(`https://www.npmjs.com/package/${name}`, updateCallback)
        .on(`error`, logError);
  };
  \<close>
  \<^verbatim>\<open>packages.map\<close> is a function only when \<^verbatim>\<open>packages\<close> is an array.
\<close>

definition updatePackage :: "env \<Rightarrow> jsvalue \<Rightarrow> world \<Rightarrow> error + world" where
  "updatePackage E name w = http_get E name w"

fun pack_names :: "json list \<Rightarrow> error + jsvalue list" where
  "pack_names [] = Inr []"
| "pack_names (pack # packs) =
     (case member (Some pack) ''name'' of
        Inl e \<Rightarrow> Inl e
      | Inr name \<Rightarrow>
          (case pack_names packs of Inl e \<Rightarrow> Inl e | Inr names \<Rightarrow> Inr (name # names)))"

fun update_each :: "env \<Rightarrow> jsvalue list \<Rightarrow> world \<Rightarrow> error + world" where
  "update_each E [] w = Inr w"
| "update_each E (name # names) w =
     (case updatePackage E name w of
        Inl e \<Rightarrow> Inl e
      | Inr w' \<Rightarrow> update_each E names w')"

definition COMMANDS_UPDATE :: "env \<Rightarrow> string list \<Rightarrow> json \<Rightarrow> world \<Rightarrow> error + world" where
  "COMMANDS_UPDATE E args config w =
     (case member (Some config) ''packages'' of
        Inl e \<Rightarrow> Inl e
      | Inr p \<Rightarrow>
          let packages = (if truthy p then p else Some (JArr [])) in
          (case packages of
             Some (JArr packs) \<Rightarrow>
               (case pack_names packs of
                  Inl e \<Rightarrow> Inl e
                | Inr names \<Rightarrow> update_each E names w)
           | _ \<Rightarrow> Inl TypeError))"

subsection \<open>The statistics file\<close>

text \<open>
  Lines 202-211; \<open>now\<close> is what \<^verbatim>\<open>new Date()\<close> reads from the clock, \<open>getMonth\<close> counting
  from 0:
  \<^verbatim>\<open>
  const getStatName = () => {
    const now = new Date(),
          year = now.getFullYear();
    let month = now.getMonth() + 1;
    if (month < 10) month = '0' + month;
    return `${month}.${year}.json`;
  };
  \<close>
\<close>

record date =
  getFullYear :: int
  getMonth :: nat

definition integer_string :: "int \<Rightarrow> string" where
  "integer_string i = (if i < 0 then ''-'' @ decimal (nat (- i)) else decimal (nat i))"

definition getStatName :: "date \<Rightarrow> string" where
  "getStatName now =
     (let year = getFullYear now;
          month = getMonth now + 1;
          month' = (if month < 10 then ''0'' @ decimal month else decimal month)
      in month' @ ''.'' @ integer_string year @ ''.json'')"

text \<open>Lines 197-200: the response is not read, and its type is left open.\<close>

definition parseRes :: "'res \<Rightarrow> json" where
  "parseRes res = JObj (fmupd ''name'' (JStr ''next-task'') fmempty)"

text \<open>
  Lines 176-190. The function returns nothing; the model returns the final values of its
  constants \<^verbatim>\<open>stat\<close> and \<^verbatim>\<open>packages\<close> with the world.
  \<^verbatim>\<open>
  const updateCallback = res => {
    const pack = parseRes(res),
          statName = STATS + getStatName();
    try {
      fs.accessSync(statName);
    } catch(e) {
      writeJSON(statName, {packages: []});
    }
    const stat = readJSON(statName),
          packages = stat.packages;
  };
  \<close>
\<close>

definition updateCallback ::
    "env \<Rightarrow> date \<Rightarrow> 'res \<Rightarrow> world \<Rightarrow> error + (json \<times> jsvalue \<times> world)" where
  "updateCallback E now res w =
     (let pack = parseRes res;
          statName = STATS @ getStatName now
      in case (if accessSync statName w then Inr w
               else writeJSON E statName (JObj (fmupd ''packages'' (JArr []) fmempty)) w) of
           Inl e \<Rightarrow> Inl e
         | Inr w' \<Rightarrow>
             let stat = readJSON E statName w' in
             (case member (Some stat) ''packages'' of
                Inl e \<Rightarrow> Inl e
              | Inr packages \<Rightarrow> Inr (stat, packages, w')))"

subsection \<open>The dispatcher\<close>

definition COMMANDS ::
    "string \<rightharpoonup> (env \<Rightarrow> string list \<Rightarrow> json \<Rightarrow> world \<Rightarrow> error + world)" where
  "COMMANDS = [GET \<mapsto> COMMANDS_GET, SET \<mapsto> COMMANDS_SET, UPDATE \<mapsto> COMMANDS_UPDATE]"

text \<open>
  Lines 18-50:
  \<^verbatim>\<open>
  const npmStatistic = module.exports = args => {
    if (!args[0]) args[0] = UPDATE;
    const command = args.shift();
    try {
      fs.accessSync(CONFIG);
    } catch(e) {
      console.log(`Cannot find config ("${CONFIG}"). Create new empty config.`);
      writeJSON(CONFIG, {});
    }
    try {
      fs.accessSync(STATS);
    } catch(e) {
      fs.mkdirSync(STATS);
    }
    let config = readJSON(CONFIG);
    if (!config) {
      console.error(`Wrong config format (in "${CONFIG}").`);
      return;
    }
    if (!COMMANDS.hasOwnProperty(command)) {
      console.error(`Unknown command: "${command}".`);
      return;
    }
    COMMANDS[command](args, config);
  };
  \<close>
  \<open>startup\<close> is the part before \<^verbatim>\<open>readJSON(CONFIG)\<close>: the two existence checks.
  \<^verbatim>\<open>fs.mkdirSync(STATS)\<close> is under no \<^verbatim>\<open>try\<close>: when \<^verbatim>\<open>./stats/\<close> is a regular file,
  the check fails, \<^verbatim>\<open>mkdirSync\<close> throws, and the exception leaves \<^verbatim>\<open>npmStatistic\<close>.
  The first two lines leave the command name in \<open>command\<close> and the remaining arguments in
  \<open>args\<close>; a missing or empty first argument stands for \<^verbatim>\<open>update\<close>.
\<close>

definition startup :: "env \<Rightarrow> world \<Rightarrow> error + world" where
  "startup E w =
     (case (if accessSync CONFIG w then Inr w
            else writeJSON E CONFIG (JObj fmempty)
                   (console_log (''Cannot find config ('' @ dquote @ CONFIG @ dquote
                      @ ''). Create new empty config.'') w)) of
        Inl e \<Rightarrow> Inl e
      | Inr w' \<Rightarrow> if accessSync STATS w' then Inr w' else mkdirSync STATS w')"

definition npmStatistic :: "env \<Rightarrow> string list \<Rightarrow> world \<Rightarrow> error + world" where
  "npmStatistic E args0 w =
     (let (command, args) =
            (case args0 of
               [] \<Rightarrow> (UPDATE, [])
             | a # rest \<Rightarrow> (if a = [] then UPDATE else a, rest))
      in case startup E w of
           Inl e \<Rightarrow> Inl e
         | Inr w' \<Rightarrow>
             let config = readJSON E CONFIG w' in
             if \<not> truthy (Some config) then
               Inr (console_error (''Wrong config format (in '' @ dquote @ CONFIG @ dquote
                      @ '').'') w')
             else
               (case COMMANDS command of
                  None \<Rightarrow>
                    Inr (console_error (''Unknown command: '' @ dquote @ command @ dquote
                           @ ''.'') w')
                | Some handler \<Rightarrow>
                    handler E args config (w'\<lparr>invoked := invoked w' @ [command]\<rparr>)))"

section \<open>Notions used in the claims\<close>

text \<open>
  A container is ``a value capable of holding named or indexed children (object or
  array), as opposed to a scalar''.
\<close>

fun container :: "jsvalue \<Rightarrow> bool" where
  "container (Some (JObj m)) = True"
| "container (Some (JArr xs)) = True"
| "container v = False"

text \<open>
  The command line \<^verbatim>\<open>set p raw\<close> followed by the command line \<^verbatim>\<open>get p\<close>: two runs of
  the program, the second on the world the first one left.
\<close>

definition set_then_get :: "env \<Rightarrow> string \<Rightarrow> string \<Rightarrow> world \<Rightarrow> error + world" where
  "set_then_get E p raw w =
     (case npmStatistic E [SET, p, raw] w of
        Inl e \<Rightarrow> Inl e
      | Inr w' \<Rightarrow> npmStatistic E [GET, p] w')"

text \<open>
  \<open>stores parent key\<close>: the assignment \<^verbatim>\<open>parent[key] = v\<close> makes \<open>v\<close> the own property
  \<open>key\<close> that \<^verbatim>\<open>JSON.stringify\<close> writes: any key of an object but a \<^verbatim>\<open>__proto__\<close> that
  the object does not own, and an array index of an array.
\<close>

fun stores :: "json \<Rightarrow> string \<Rightarrow> bool" where
  "stores (JObj m) key = (key \<noteq> ''__proto__'' \<or> fmlookup m key \<noteq> None)"
| "stores (JArr xs) key = (array_index key \<noteq> None)"
| "stores v key = False"

text \<open>
  \<open>in_place parent key\<close>: the assignment \<^verbatim>\<open>parent[key] = v\<close> leaves the other properties
  of \<open>parent\<close> as they are: any key of an object, and any key of an array but
  \<^verbatim>\<open>length\<close> and an array index at or beyond its length.
\<close>

fun in_place :: "json \<Rightarrow> string \<Rightarrow> bool" where
  "in_place (JObj m) key = True"
| "in_place (JArr xs) key =
     (key \<noteq> ''length'' \<and> (case array_index key of Some i \<Rightarrow> i < length xs | None \<Rightarrow> True))"
| "in_place v key = False"

subsection \<open>A sample environment\<close>

text \<open>
  The examples run the program with the following values of \<^verbatim>\<open>JSON.parse\<close> and
  \<^verbatim>\<open>JSON.stringify\<close>: \<open>sample_texts\<close> pairs a JSON text with the document it denotes.
  Every other text is taken as malformed, and the sample environment is used on the
  listed texts and documents only. No example of this file converts a string or an object
  to a number, or sends a request.
\<close>

definition sample_texts :: "(string \<times> json) list" where
  \<open>sample_texts =
     [(''{}'', JObj fmempty),
      (''{"a":[]}'', JObj (fmupd ''a'' (JArr []) fmempty)),
      (''{"a":1}'', JObj (fmupd ''a'' (JNum (Finite 1)) fmempty)),
      (''{"a":[1,2]}'', JObj (fmupd ''a'' (JArr [JNum (Finite 1), JNum (Finite 2)]) fmempty)),
      (''{"a":"yes"}'', JObj (fmupd ''a'' (JStr ''yes'') fmempty)),
      (''{"packages":[]}'', JObj (fmupd ''packages'' (JArr []) fmempty)),
      (''{"a":[1,2],"b":1}'',
         JObj (fmupd ''b'' (JNum (Finite 1))
                (fmupd ''a'' (JArr [JNum (Finite 1), JNum (Finite 2)]) fmempty))),
      (''null'', JNull),
      (''0'', JNum (Finite 0)),
      (''1'', JNum (Finite 1)),
      (''5'', JNum (Finite 5)),
      (''"yes"'', JStr ''yes'')]\<close>

definition sample_parse :: "string \<Rightarrow> json option" where
  "sample_parse text = map_of sample_texts text"

definition sample_stringify :: "json \<Rightarrow> string" where
  "sample_stringify d =
     (case find (\<lambda>(text, d'). d' = d) sample_texts of
        Some (text, d') \<Rightarrow> text
      | None \<Rightarrow> ''?'')"

definition sample_env :: env where
  "sample_env =
     \<lparr>JSON_parse = sample_parse, JSON_stringify = sample_stringify,
      ToNumber_text = (\<lambda>v. NaN), http_get = (\<lambda>name w. Inr w)\<rparr>"

text \<open>
  A world whose configuration file holds \<open>text\<close> and whose statistics directory exists,
  a world with neither, and a world in which \<^verbatim>\<open>./stats/\<close> is a regular file.
\<close>

definition configured :: "string \<Rightarrow> world" where
  "configured text =
     \<lparr>files = [CONFIG \<mapsto> File text, STATS \<mapsto> Dir], stdout = [], stderr = [], invoked = []\<rparr>"

definition obstructed :: "string \<Rightarrow> world" where
  "obstructed text =
     \<lparr>files = [CONFIG \<mapsto> File text, STATS \<mapsto> File []], stdout = [], stderr = [],
      invoked = []\<rparr>"

definition fresh :: world where
  "fresh = \<lparr>files = Map.empty, stdout = [], stderr = [], invoked = []\<rparr>"

section \<open>Indices and their string form\<close>

lemma decimal_small: "n < 10 \<Longrightarrow> decimal n = [digit_of n]"
  by (simp add: decimal.simps)

lemma decimal_large: "10 \<le> n \<Longrightarrow> decimal n = decimal (n div 10) @ [digit_of (n mod 10)]"
  by (subst decimal.simps) simp

lemma digit_of_eval:
  "digit_of 0 = CHR ''0''" "digit_of 1 = CHR ''1''" "digit_of 2 = CHR ''2''"
  "digit_of 3 = CHR ''3''" "digit_of 4 = CHR ''4''" "digit_of 5 = CHR ''5''"
  "digit_of 6 = CHR ''6''" "digit_of 7 = CHR ''7''" "digit_of 8 = CHR ''8''"
  "digit_of 9 = CHR ''9''" "digit_of (Suc 0) = CHR ''1''"
  by (simp_all add: digit_of_def numeral_nat)

lemma digit_value_digit_of: "d < 10 \<Longrightarrow> digit_value (digit_of d) = d"
proof -
  assume "d < 10"
  then have "d \<in> {0, 1, 2, 3, 4, 5, 6, 7, 8, 9}" by auto
  then show ?thesis by (auto simp: digit_of_def digit_value_def)
qed

lemma numeral_value_snoc: "numeral_value (s @ [c]) = 10 * numeral_value s + digit_value c"
  by (simp add: numeral_value_def)

lemma numeral_value_decimal: "numeral_value (decimal n) = n"
proof (induction n rule: decimal.induct)
  case (1 n)
  show ?case
  proof (cases "n < 10")
    case True
    then show ?thesis by (simp add: decimal_small numeral_value_def digit_value_digit_of)
  next
    case False
    then have "numeral_value (decimal (n div 10)) = n div 10" using 1 by simp
    with False show ?thesis
      by (simp add: decimal_large numeral_value_snoc digit_value_digit_of)
  qed
qed

lemma canonical_index_iff: "canonical_index k = Some i \<longleftrightarrow> k = decimal i"
  by (auto simp: canonical_index_def Let_def numeral_value_decimal)

lemmas index_eval =
  canonical_index_def numeral_value_def digit_value_def decimal_small decimal_large digit_of_eval

section \<open>Facts about the path resolver\<close>

lemma container_test: "(\<not> truthy v \<or> typeof v \<noteq> ''object'') = (\<not> container v)"
  by (cases v rule: container.cases) simp_all

lemma getJsonPart_undefined: "getJsonPart None keys = Inr None"
  by (cases keys) simp_all

lemma getJsonPart_step:
  "getJsonPart (Some doc) (key # keys) =
     (if truthy (Some doc) \<and> own doc key \<noteq> None then getJsonPart (own doc key) keys
      else Inr None)"
  by (cases doc) simp_all

lemma getJsonPart_returns: "\<exists>r. getJsonPart v keys = Inr r"
proof (induction keys arbitrary: v)
  case Nil
  show ?case by simp
next
  case (Cons key keys)
  show ?case
  proof (cases v)
    case None
    then show ?thesis by simp
  next
    case (Some doc)
    with Cons show ?thesis by (simp only: getJsonPart_step split: if_splits) simp
  qed
qed

lemma getJsonPart_append:
  "getJsonPart v (keys @ keys') =
     (case getJsonPart v keys of Inl e \<Rightarrow> Inl e | Inr v' \<Rightarrow> getJsonPart v' keys')"
proof (induction keys arbitrary: v)
  case Nil
  show ?case by simp
next
  case (Cons key keys)
  show ?case
  proof (cases v)
    case None
    then show ?thesis by (simp add: getJsonPart_undefined)
  next
    case (Some doc)
    with Cons show ?thesis
      by (auto simp add: getJsonPart_step getJsonPart_undefined simp del: getJsonPart.simps)
  qed
qed

lemma walk_condition:
  "(truthy (Some doc) \<and> own doc key \<noteq> None) =
   ((container (Some doc) \<or> (\<exists>s. doc = JStr s \<and> s \<noteq> [])) \<and> own doc key \<noteq> None)"
  by (cases doc) auto

lemma digit_of_digit: "d < 10 \<Longrightarrow> digit_of d \<in> set ''0123456789''"
proof -
  assume "d < 10"
  then have "d \<in> {0, 1, 2, 3, 4, 5, 6, 7, 8, 9}" by auto
  then show ?thesis by (auto simp: digit_of_def)
qed

lemma set_decimal: "set (decimal n) \<subseteq> set ''0123456789''"
proof (induction n rule: decimal.induct)
  case (1 n)
  show ?case
  proof (cases "n < 10")
    case True
    then show ?thesis using digit_of_digit [of n] by (simp add: decimal_small)
  next
    case False
    then have "set (decimal (n div 10)) \<subseteq> set ''0123456789''" using 1 by simp
    moreover have "digit_of (n mod 10) \<in> set ''0123456789''" by (rule digit_of_digit) simp
    ultimately show ?thesis using False by (simp add: decimal_large)
  qed
qed

lemma length_decimal_2: "10 \<le> n \<Longrightarrow> n < 100 \<Longrightarrow> length (decimal n) = 2"
  by (simp add: decimal_large decimal_small)

lemma length_decimal_4: "1000 \<le> n \<Longrightarrow> n < 10000 \<Longrightarrow> length (decimal n) = 4"
proof -
  assume a: "1000 \<le> n" "n < 10000"
  then have b: "100 \<le> n div 10" "n div 10 < 1000" by simp_all
  then have c: "10 \<le> n div 10 div 10" "n div 10 div 10 < 100" by simp_all
  have "length (decimal (n div 10 div 10)) = 2" using c by (rule length_decimal_2)
  moreover have "10 \<le> n div 10" using b by simp
  moreover have "10 \<le> n" using a by simp
  ultimately show ?thesis by (simp add: decimal_large)
qed

section \<open>Facts about the environment and the dispatcher\<close>

lemma names_distinct [simp]:
  "CONFIG \<noteq> STATS" "STATS \<noteq> CONFIG" "folder CONFIG = []"
  "GET \<noteq> SET" "SET \<noteq> GET" "GET \<noteq> UPDATE" "UPDATE \<noteq> GET" "SET \<noteq> UPDATE" "UPDATE \<noteq> SET"
  "GET \<noteq> []" "SET \<noteq> []" "UPDATE \<noteq> []"
  by (simp_all add: CONFIG_def STATS_def GET_def SET_def UPDATE_def folder_def)

lemma COMMANDS_eval [simp]:
  "COMMANDS GET = Some COMMANDS_GET" "COMMANDS SET = Some COMMANDS_SET"
  "COMMANDS UPDATE = Some COMMANDS_UPDATE"
  "c \<notin> {UPDATE, GET, SET} \<Longrightarrow> COMMANDS c = None"
  by (simp_all add: COMMANDS_def)

lemma accessSync_names [simp]:
  "accessSync CONFIG w = (files w CONFIG \<noteq> None)"
  "accessSync STATS w = (files w STATS = Some Dir)"
  by (auto simp add: accessSync_def trailing_slash_def CONFIG_def STATS_def
      split: option.splits entry.splits)

text \<open>
  The world after the creation of a missing configuration file, and the startup in full:
  it throws exactly when \<^verbatim>\<open>./stats/\<close> is a regular file.
\<close>

lemma startup_cases:
  "startup E w =
     (let w1 = (if files w CONFIG = None
                then w\<lparr>files := (files w)(CONFIG \<mapsto> File (JSON_stringify E (JObj fmempty))),
                       stdout := stdout w @
                         [''Cannot find config ('' @ dquote @ CONFIG @ dquote
                            @ ''). Create new empty config.'']\<rparr>
                else w)
      in case files w STATS of
           None \<Rightarrow> Inr (w1\<lparr>files := (files w1)(STATS \<mapsto> Dir)\<rparr>)
         | Some Dir \<Rightarrow> Inr w1
         | Some (File text) \<Rightarrow> Inl SystemError)"
proof (cases "files w CONFIG")
  case None
  then show ?thesis
    by (cases "files w STATS")
      (auto simp add: startup_def mkdirSync_def writeJSON_def writeFileSync_def
        console_log_def Let_def split: entry.splits)
next
  case (Some c)
  then show ?thesis
    by (cases "files w STATS")
      (auto simp add: startup_def mkdirSync_def Let_def split: entry.splits)
qed

lemma startup_present:
  "files w CONFIG \<noteq> None \<Longrightarrow> files w STATS = Some Dir \<Longrightarrow> startup E w = Inr w"
  by (auto simp add: startup_cases Let_def)

lemma startup_config_present:
  assumes "files w CONFIG \<noteq> None" and "files w STATS \<in> {None, Some Dir}"
  shows "startup E w =
           Inr (if files w STATS = None then w\<lparr>files := (files w)(STATS \<mapsto> Dir)\<rparr> else w)"
  using assms by (auto simp add: startup_cases)

lemma startup_stats_file:
  "files w STATS = Some (File x) \<Longrightarrow> startup E w = Inl SystemError"
  by (simp add: startup_cases Let_def)

lemma run_stats_file:
  "files w STATS = Some (File x) \<Longrightarrow> npmStatistic E args w = Inl SystemError"
  by (simp add: npmStatistic_def startup_stats_file split: prod.splits)

lemma readJSON_cases:
  "readJSON E name w =
     (case files w name of
        Some (File text) \<Rightarrow> (case JSON_parse E text of None \<Rightarrow> JNull | Some v \<Rightarrow> v)
      | _ \<Rightarrow> JNull)"
  by (simp add: readJSON_def readFileSync_def split: option.splits entry.splits)

lemma falsy_config:
  "files w CONFIG = Some (File text) \<Longrightarrow>
   JSON_parse E text \<in>
     {None, Some JNull, Some (JBool False), Some (JNum (Finite 0)), Some (JStr [])} \<Longrightarrow>
   \<not> truthy (Some (readJSON E CONFIG w))"
  by (auto simp add: readJSON_cases)

lemma fmupd_not_empty [simp]: "fmupd k v m \<noteq> fmempty" "fmempty \<noteq> fmupd k v m"
proof -
  have "fmlookup (fmupd k v m) k \<noteq> fmlookup fmempty k" by simp
  then show "fmupd k v m \<noteq> fmempty" by metis
  then show "fmempty \<noteq> fmupd k v m" by metis
qed

lemma fmupd_single_eq [simp]:
  "(fmupd k v fmempty = fmupd k' v' fmempty) = (k = k' \<and> v = v')"
proof
  assume eq: "fmupd k v fmempty = fmupd k' v' fmempty"
  then have "fmlookup (fmupd k v fmempty) k = fmlookup (fmupd k' v' fmempty) k" by simp
  then have k: "k = k'" by (simp split: if_splits)
  with eq have "fmlookup (fmupd k v fmempty) k = fmlookup (fmupd k v' fmempty) k" by simp
  then have "v = v'" by simp
  with k show "k = k' \<and> v = v'" by simp
qed simp

lemma fmupd_two_not_single [simp]:
  assumes "k \<noteq> k'"
  shows "fmupd k v (fmupd k' v' m) \<noteq> fmupd k'' v'' fmempty"
    and "fmupd k'' v'' fmempty \<noteq> fmupd k v (fmupd k' v' m)"
proof -
  show ne: "fmupd k v (fmupd k' v' m) \<noteq> fmupd k'' v'' fmempty"
  proof
    assume eq: "fmupd k v (fmupd k' v' m) = fmupd k'' v'' fmempty"
    then have "fmlookup (fmupd k v (fmupd k' v' m)) k = fmlookup (fmupd k'' v'' fmempty) k"
      by simp
    then have "k = k''" by (simp split: if_splits)
    moreover from eq
    have "fmlookup (fmupd k v (fmupd k' v' m)) k' = fmlookup (fmupd k'' v'' fmempty) k'"
      by simp
    then have "k' = k''" using assms by (simp split: if_splits)
    ultimately show False using assms by simp
  qed
  then show "fmupd k'' v'' fmempty \<noteq> fmupd k v (fmupd k' v' m)" by metis
qed

lemma sample_env_sel [simp]:
  "JSON_parse sample_env = sample_parse" "JSON_stringify sample_env = sample_stringify"
  by (simp_all add: sample_env_def)

section \<open>Facts about the assignment\<close>

lemma split_dot_nonempty [simp]: "split_dot s \<noteq> []"
  by (induction s) simp_all

lemma split_dot_snoc: "butlast (split_dot p) @ [last (split_dot p)] = split_dot p"
  by simp

lemma container_truthy: "container v \<Longrightarrow> truthy v"
  by (cases v rule: container.cases) simp_all

lemma stores_container: "stores parent key \<Longrightarrow> container (Some parent)"
  by (cases parent) simp_all

lemma in_place_container: "in_place parent key \<Longrightarrow> container (Some parent)"
  by (cases parent) simp_all

text \<open>Below a scalar there are only scalars: a path to a container runs through containers.\<close>

lemma scalar_has_no_container:
  "\<not> container (Some d) \<Longrightarrow> getJsonPart (Some d) ks = Inr (Some c) \<Longrightarrow> \<not> container (Some c)"
proof (induction ks arbitrary: d)
  case Nil
  then show ?case by simp
next
  case (Cons k ks)
  from Cons.prems obtain d' where d': "own d k = Some d'"
    and rest: "getJsonPart (Some d') ks = Inr (Some c)"
    by (auto simp: getJsonPart_step simp del: getJsonPart.simps split: if_splits)
  have "\<not> container (Some d')"
    using Cons.prems(1) d' by (cases d) (auto split: if_splits option.splits)
  then show ?case using rest by (rule Cons.IH)
qed

lemma replace_at_resolves:
  "getJsonPart (Some doc) ks = Inr (Some parent) \<Longrightarrow> container (Some parent) \<Longrightarrow>
   getJsonPart (Some (replace_at doc ks new)) ks = Inr (Some new)"
proof (induction ks arbitrary: doc)
  case Nil
  then show ?case by simp
next
  case (Cons k ks)
  from Cons.prems(1) obtain c where c: "own doc k = Some c"
    and rest: "getJsonPart (Some c) ks = Inr (Some parent)"
    by (auto simp: getJsonPart_step simp del: getJsonPart.simps split: if_splits)
  have cc: "container (Some c)"
    using scalar_has_no_container [OF _ rest] Cons.prems(2) by blast
  have ih: "getJsonPart (Some (replace_at c ks new)) ks = Inr (Some new)"
    using rest Cons.prems(2) by (rule Cons.IH)
  show ?case
  proof (cases doc)
    case (JObj m)
    with c ih show ?thesis by (simp add: getJsonPart_step del: getJsonPart.simps)
  next
    case (JArr xs)
    with c cc obtain i where "k \<noteq> ''length''" "canonical_index k = Some i" "i < length xs"
      "c = xs ! i"
      by (auto split: if_splits option.splits)
    with JArr ih show ?thesis by (simp add: getJsonPart_step del: getJsonPart.simps)
  next
    case (JStr s)
    with c cc show ?thesis by (auto split: if_splits option.splits)
  qed (use c in simp_all)
qed

lemma replace_at_container:
  "getJsonPart (Some doc) ks = Inr (Some parent) \<Longrightarrow> container (Some parent) \<Longrightarrow>
   container (Some new) \<Longrightarrow> container (Some (replace_at doc ks new))"
proof (cases ks)
  case Nil
  then show "container (Some new) \<Longrightarrow> container (Some (replace_at doc ks new))" by simp
next
  case (Cons k ks')
  assume a: "getJsonPart (Some doc) ks = Inr (Some parent)" "container (Some parent)"
  have "container (Some doc)"
    using scalar_has_no_container [OF _ a(1)] a(2) by blast
  then show ?thesis using Cons
    by (cases doc) (auto split: option.splits)
qed

text \<open>
  Replacing the object at \<open>ks\<close> by one that differs from it in the property \<open>key\<close> only
  leaves every path that is neither a prefix nor an extension of \<open>ks @ [key]\<close> as it was.
\<close>

lemma replace_at_frame:
  assumes "getJsonPart (Some doc) ks = Inr (Some parent)"
    and "container (Some parent)" and "container (Some parent')"
    and "\<And>k. k \<noteq> key \<Longrightarrow> own parent' k = own parent k"
    and "\<not> prefix q (ks @ [key])" and "\<not> prefix (ks @ [key]) q"
  shows "getJsonPart (Some (replace_at doc ks parent')) q = getJsonPart (Some doc) q"
  using assms(1,5,6)
proof (induction ks arbitrary: doc q)
  case Nil
  then obtain k q' where q: "q = k # q'" and k: "k \<noteq> key"
    by (cases q) auto
  from Nil have "doc = parent" by simp
  then show ?case
    using q k assms(2,3) assms(4) [of k]
    by (simp add: getJsonPart_step container_truthy del: getJsonPart.simps)
next
  case (Cons k ks)
  from Cons.prems(1) obtain c where c: "own doc k = Some c"
    and rest: "getJsonPart (Some c) ks = Inr (Some parent)"
    by (auto simp: getJsonPart_step simp del: getJsonPart.simps split: if_splits)
  have cc: "container (Some c)"
    using scalar_has_no_container [OF _ rest] assms(2) by blast
  from Cons.prems(2) obtain k' q' where q: "q = k' # q'" by (cases q) auto
  have ih: "k' = k \<Longrightarrow>
      getJsonPart (Some (replace_at c ks parent')) q' = getJsonPart (Some c) q'"
    using Cons.IH [OF rest, of q'] Cons.prems(2,3) q by simp
  show ?case
  proof (cases doc)
    case (JObj m)
    with c q ih show ?thesis
      by (cases "k' = k") (simp_all add: getJsonPart_step del: getJsonPart.simps)
  next
    case (JArr xs)
    with c cc obtain i where i: "k \<noteq> ''length''" "canonical_index k = Some i" "i < length xs"
      "c = xs ! i"
      by (auto split: if_splits option.splits)
    show ?thesis
    proof (cases "k' = k")
      case True
      with JArr i q ih show ?thesis by (simp add: getJsonPart_step del: getJsonPart.simps)
    next
      case False
      then have "canonical_index k' \<noteq> Some i" using i(2) by (auto simp: canonical_index_iff)
      with JArr i q False show ?thesis
        by (auto simp add: getJsonPart_step simp del: getJsonPart.simps split: option.splits)
    qed
  next
    case (JStr s)
    with c cc show ?thesis by (auto split: if_splits option.splits)
  qed (use c in simp_all)
qed

lemma length_resize [simp]: "length (resize n xs) = n"
  by (simp add: resize_def)

lemma resize_same [simp]: "resize (length xs) xs = xs"
  by (simp add: resize_def)

lemma array_index_canonical: "array_index k = Some i \<Longrightarrow> canonical_index k = Some i"
  by (simp add: array_index_def split: option.splits if_splits)

lemma index_of_names [simp]:
  "canonical_index ''length'' = None" "array_index ''length'' = None" "array_index ''x'' = None"
  by (simp_all add: array_index_def index_eval)

lemma put_stores:
  assumes "stores parent key"
  shows "\<exists>parent'. put E (Some parent) key v = Inr parent' \<and> own parent' key = Some v
           \<and> container (Some parent')"
proof (cases parent)
  case (JObj m)
  with assms show ?thesis by auto
next
  case (JArr xs)
  with assms obtain i where i: "array_index key = Some i" by auto
  then have "key \<noteq> ''length''" by auto
  with JArr i show ?thesis by (simp add: array_index_canonical)
qed (use assms in simp_all)

lemma put_in_place_succeeds:
  "in_place parent key \<Longrightarrow> \<exists>parent'. put E (Some parent) key v = Inr parent'"
  by (cases parent) (auto split: option.splits)

lemma put_in_place_container:
  "in_place parent key \<Longrightarrow> put E (Some parent) key v = Inr parent' \<Longrightarrow>
   container (Some parent')"
  by (cases parent) (auto split: if_splits option.splits)

lemma put_in_place_others:
  assumes "in_place parent key" and "put E (Some parent) key v = Inr parent'" and "k \<noteq> key"
  shows "own parent' k = own parent k"
proof (cases parent)
  case (JObj m)
  with assms show ?thesis by (auto split: if_splits)
next
  case (JArr xs)
  show ?thesis
  proof (cases "array_index key")
    case None
    with JArr assms show ?thesis by auto
  next
    case (Some i)
    then have ki: "key = decimal i" using array_index_canonical canonical_index_iff by blast
    from Some JArr assms have i: "i < length xs" and kl: "key \<noteq> ''length''" by auto
    then have "max (length xs) (Suc i) = length xs" by simp
    with Some JArr assms kl have p': "parent' = JArr (xs[i := v])" by simp
    have "canonical_index k \<noteq> Some i" using ki assms(3) by (simp add: canonical_index_iff)
    with JArr p' show ?thesis by (auto split: option.splits)
  qed
qed (use assms in simp_all)

lemma set_reaches_assignment:
  assumes "getJsonPart (Some config) (butlast (split_dot p)) = Inr (Some parent)"
    and "container (Some parent)"
  shows "COMMANDS_SET E (p # raw # rest) config w =
           (case put E (Some parent) (last (split_dot p))
                   (case JSON_parse E raw of Some parsed \<Rightarrow> parsed | None \<Rightarrow> JStr raw) of
              Inl e \<Rightarrow> Inl e
            | Inr parent' \<Rightarrow>
                writeJSON E CONFIG (replace_at config (butlast (split_dot p)) parent') w)"
proof -
  have "truthy (Some parent) \<and> typeof (Some parent) = ''object''"
    using assms(2) container_test [of "Some parent"] by blast
  then show ?thesis
    using assms(1) by (simp add: COMMANDS_SET_def Let_def cong: option.case_cong)
qed

lemma stored_value_resolves:
  assumes "getJsonPart (Some config) (butlast (split_dot p)) = Inr (Some parent)"
    and "container (Some parent)" and "container (Some parent')"
    and "own parent' (last (split_dot p)) = Some v"
  shows "getJsonPart (Some (replace_at config (butlast (split_dot p)) parent')) (split_dot p)
           = Inr (Some v)"
proof -
  let ?keys = "butlast (split_dot p)" and ?key = "last (split_dot p)"
  let ?doc = "Some (replace_at config ?keys parent')"
  have r1: "getJsonPart ?doc ?keys = Inr (Some parent')"
    using assms(1,2) by (rule replace_at_resolves)
  have r2: "getJsonPart (Some parent') [?key] = Inr (Some v)"
    using assms(3,4) by (simp add: getJsonPart_step container_truthy del: getJsonPart.simps(2))
  have "getJsonPart ?doc (?keys @ [?key]) =
      (case getJsonPart ?doc ?keys of Inl e \<Rightarrow> Inl e | Inr v' \<Rightarrow> getJsonPart v' [?key])"
    by (rule getJsonPart_append)
  also have "\<dots> = Inr (Some v)" by (simp only: r1 r2 sum.case)
  finally show ?thesis unfolding split_dot_snoc .
qed

lemma get_prints:
  "getJsonPart (Some config) (split_dot p) = Inr v \<Longrightarrow>
   COMMANDS_GET E [p] config w = Inr (console_log (stringify_value E v) w)"
  by (simp add: COMMANDS_GET_def)

section \<open>Facts about runs\<close>

lemma run_handler_present:
  assumes "files w CONFIG = Some (File content)" and "JSON_parse E content = Some config"
    and "truthy (Some config)" and "COMMANDS command = Some handler" and "command \<noteq> []"
    and "files w STATS = Some Dir"
  shows "npmStatistic E (command # args) w =
           handler E args config (w\<lparr>invoked := invoked w @ [command]\<rparr>)"
proof -
  have s: "startup E w = Inr w" using assms(1,6) by (simp add: startup_present)
  have "readJSON E CONFIG w = config" using assms(1,2) by (simp add: readJSON_cases)
  then show ?thesis using s assms(3,4,5) by (simp add: npmStatistic_def Let_def)
qed

lemma run_handler:
  assumes "files w CONFIG = Some (File content)" and "JSON_parse E content = Some config"
    and "truthy (Some config)" and "COMMANDS command = Some handler" and "command \<noteq> []"
    and "files w STATS \<in> {None, Some Dir}"
  shows "\<exists>w0. npmStatistic E (command # args) w = handler E args config w0
           \<and> files w0 CONFIG = Some (File content) \<and> files w0 STATS = Some Dir
           \<and> stdout w0 = stdout w \<and> stderr w0 = stderr w"
proof -
  let ?w = "if files w STATS = None then w\<lparr>files := (files w)(STATS \<mapsto> Dir)\<rparr> else w"
  have s: "startup E w = Inr ?w" using assms(1,6) by (simp add: startup_config_present)
  have "readJSON E CONFIG ?w = config" using assms(1,2) by (simp add: readJSON_cases)
  then have "npmStatistic E (command # args) w =
      handler E args config (?w\<lparr>invoked := invoked ?w @ [command]\<rparr>)"
    using s assms(3,4,5) by (simp add: npmStatistic_def Let_def)
  moreover have "files (?w\<lparr>invoked := invoked ?w @ [command]\<rparr>) CONFIG = Some (File content)"
    "files (?w\<lparr>invoked := invoked ?w @ [command]\<rparr>) STATS = Some Dir"
    "stdout (?w\<lparr>invoked := invoked ?w @ [command]\<rparr>) = stdout w"
    "stderr (?w\<lparr>invoked := invoked ?w @ [command]\<rparr>) = stderr w"
    using assms(1,6) by auto
  ultimately show ?thesis by blast
qed

lemma writeJSON_config:
  "files w CONFIG = Some (File content) \<Longrightarrow>
   writeJSON E CONFIG d w = Inr (w\<lparr>files := (files w)(CONFIG \<mapsto> File (JSON_stringify E d))\<rparr>)"
  by (simp add: writeJSON_def writeFileSync_def)

lemma folder_under:
  assumes "CHR ''/'' \<notin> set s"
  shows "folder (d @ ''/'' @ s) = d @ ''/''"
proof -
  have "dropWhile (\<lambda>c. c \<noteq> CHR ''/'') (rev s @ CHR ''/'' # rev d) = CHR ''/'' # rev d"
    using assms dropWhile_append2 [of "rev s" "\<lambda>c. c \<noteq> CHR ''/''" "CHR ''/'' # rev d"]
    by auto
  then show ?thesis by (simp add: folder_def)
qed

lemma getStatName_no_slash: "CHR ''/'' \<notin> set (getStatName now)"
proof -
  have "CHR ''/'' \<notin> set (decimal n)" for n using set_decimal [of n] by auto
  then show ?thesis by (simp add: getStatName_def Let_def integer_string_def)
qed

lemma folder_stat: "folder (STATS @ getStatName now) = STATS"
  using folder_under [OF getStatName_no_slash, of "''./stats''" now] by (simp add: STATS_def)

lemma configured_files [simp]:
  "files (configured content) CONFIG = Some (File content)"
  "files (configured content) STATS = Some Dir"
  "stdout (configured content) = []" "stderr (configured content) = []"
  "invoked (configured content) = []"
  by (simp_all add: configured_def)

lemma obstructed_files [simp]:
  "files (obstructed content) CONFIG = Some (File content)"
  "files (obstructed content) STATS = Some (File [])"
  by (simp_all add: obstructed_def)

lemma configured_rewrite:
  "(configured c)\<lparr>files := (files (configured c))(CONFIG \<mapsto> File c')\<rparr> = configured c'"
  by (auto simp: configured_def fun_eq_iff)

lemma sample_values:
  \<open>sample_parse ''{}'' = Some (JObj fmempty)\<close>
  \<open>sample_parse ''1'' = Some (JNum (Finite 1))\<close>
  \<open>sample_parse ''0'' = Some (JNum (Finite 0))\<close>
  \<open>sample_parse ''{"a":1}'' = Some (JObj (fmupd ''a'' (JNum (Finite 1)) fmempty))\<close>
  \<open>sample_parse ''{"a":[]}'' = Some (JObj (fmupd ''a'' (JArr []) fmempty))\<close>
  \<open>sample_parse ''{"a":[1,2]}''
     = Some (JObj (fmupd ''a'' (JArr [JNum (Finite 1), JNum (Finite 2)]) fmempty))\<close>
  \<open>sample_stringify (JNum (Finite 1)) = ''1''\<close>
  \<open>sample_stringify (JObj (fmupd ''a'' (JNum (Finite 1)) fmempty)) = ''{"a":1}''\<close>
  \<open>sample_stringify (JObj (fmupd ''a'' (JArr []) fmempty)) = ''{"a":[]}''\<close>
  by (simp_all add: sample_parse_def sample_stringify_def sample_texts_def)

section \<open>The claims\<close>

text \<open>
  C1, as amended. The path resolver \<open>getJsonPart\<close> walks the document one key at a time
  and never throws; the empty key sequence gives the document itself. At each key it
  descends when the current value is a container (an object or an array) or a non-empty
  string, and has the key as an own property: a member of an object, an index or
  \<^verbatim>\<open>length\<close> of an array, a code-unit index or \<^verbatim>\<open>length\<close> of a string. Otherwise it
  returns \<^verbatim>\<open>undefined\<close> at once.
\<close>

theorem getJsonPart_walk:
  "getJsonPart (Some doc) [] = Inr (Some doc)
   \<and> (\<exists>r. getJsonPart v keys = Inr r)
   \<and> getJsonPart (Some doc) (key # keys) =
       (if (container (Some doc) \<or> (\<exists>s. doc = JStr s \<and> s \<noteq> [])) \<and> own doc key \<noteq> None
        then getJsonPart (own doc key) keys else Inr None)
   \<and> getJsonPart v (keys @ keys') =
       (case getJsonPart v keys of Inl e \<Rightarrow> Inl e | Inr v' \<Rightarrow> getJsonPart v' keys')"
proof -
  have "getJsonPart (Some doc) (key # keys) =
       (if (container (Some doc) \<or> (\<exists>s. doc = JStr s \<and> s \<noteq> [])) \<and> own doc key \<noteq> None
        then getJsonPart (own doc key) keys else Inr None)"
    unfolding getJsonPart_step walk_condition ..
  then show ?thesis
    using getJsonPart_returns [of v keys] getJsonPart_append [of v keys keys'] by simp
qed

theorem getJsonPart_walk_witness:
  "getJsonPart (Some (JObj (fmupd ''packages'' (JArr [JStr ''ab'', JNull]) fmempty)))
     [''packages'', ''0'', ''length''] = Inr (Some (JNum (Finite 2)))"
  using getJsonPart_walk [of "JObj (fmupd ''packages'' (JArr [JStr ''ab'', JNull]) fmempty)"
      "Some (JObj (fmupd ''packages'' (JArr [JStr ''ab'', JNull]) fmempty))"
      "[''packages'']" "''packages''" "[''0'', ''length'']"]
  by (simp add: index_eval)

text \<open>
  C1 as stated fails: the value under \<^verbatim>\<open>name\<close> is a string, not a container, and the
  walk descends into it with the key \<^verbatim>\<open>0\<close>.
\<close>

theorem getJsonPart_descends_into_string:
  "getJsonPart (Some (JObj (fmupd ''name'' (JStr ''xyz'') fmempty))) [''name'', ''0'']
     = Inr (Some (JStr ''x''))
   \<and> \<not> container (Some (JStr ''xyz''))"
  by (simp add: index_eval)

text \<open>
  C2, as amended. Let the configuration file hold a document in which the parent keys of
  the path \<open>p\<close> resolve to an object (the final key being other than a \<^verbatim>\<open>__proto__\<close>
  that the object does not own) or to an array (the final key being an array index), let
  the document with the value assigned survive \<^verbatim>\<open>JSON.stringify\<close> followed by
  \<^verbatim>\<open>JSON.parse\<close> unchanged, and let \<^verbatim>\<open>./stats/\<close> be a directory or missing, not a
  regular file (on which the startup throws). Then \<^verbatim>\<open>set p raw\<close> followed by \<^verbatim>\<open>get p\<close> prints the
  JSON text of the value: of the parsed value when \<open>raw\<close> is valid JSON, of the string
  \<open>raw\<close> otherwise.
\<close>

theorem set_get_roundtrip:
  assumes "files w CONFIG = Some (File content)" and "JSON_parse E content = Some config"
    and "getJsonPart (Some config) (butlast (split_dot p)) = Inr (Some parent)"
    and "stores parent (last (split_dot p))"
    and "v = (case JSON_parse E raw of Some parsed \<Rightarrow> parsed | None \<Rightarrow> JStr raw)"
    and "put E (Some parent) (last (split_dot p)) v = Inr parent'"
    and "JSON_parse E (JSON_stringify E (replace_at config (butlast (split_dot p)) parent'))
           = Some (replace_at config (butlast (split_dot p)) parent')"
    and "files w STATS \<in> {None, Some Dir}"
  shows "\<exists>w'. set_then_get E p raw w = Inr w'
           \<and> stdout w' = stdout w @ [JSON_stringify E v]
           \<and> stderr w' = stderr w
           \<and> files w' CONFIG =
               Some (File (JSON_stringify E (replace_at config (butlast (split_dot p)) parent')))"
proof -
  let ?keys = "butlast (split_dot p)" and ?key = "last (split_dot p)"
  let ?config' = "replace_at config ?keys parent'"
  have cp: "container (Some parent)" using assms(4) by (rule stores_container)
  have cc: "container (Some config)"
    using scalar_has_no_container [OF _ assms(3)] cp by blast
  from put_stores [OF assms(4), of E v] assms(6)
  have p': "own parent' ?key = Some v" "container (Some parent')" by auto
  have c': "container (Some ?config')" using assms(3) cp p'(2) by (rule replace_at_container)
  obtain w1 where w1: "npmStatistic E [SET, p, raw] w = COMMANDS_SET E [p, raw] config w1"
    "files w1 CONFIG = Some (File content)" "files w1 STATS = Some Dir"
    "stdout w1 = stdout w" "stderr w1 = stderr w"
    using run_handler [OF assms(1,2) container_truthy [OF cc] _ _ assms(8),
        of SET COMMANDS_SET "[p, raw]"]
    by auto
  let ?w2 = "w1\<lparr>files := (files w1)(CONFIG \<mapsto> File (JSON_stringify E ?config'))\<rparr>"
  have "COMMANDS_SET E [p, raw] config w1 = writeJSON E CONFIG ?config' w1"
    using set_reaches_assignment [OF assms(3) cp, of E raw "[]" w1] assms(5,6) by simp
  also have "\<dots> = Inr ?w2"
    using w1(2) by (simp add: writeJSON_config)
  finally have first: "npmStatistic E [SET, p, raw] w = Inr ?w2" using w1(1) by simp
  have f2: "files ?w2 CONFIG = Some (File (JSON_stringify E ?config'))" by simp
  have s2: "files ?w2 STATS \<in> {None, Some Dir}" using w1(3) by simp
  obtain w3 where w3: "npmStatistic E [GET, p] ?w2 = COMMANDS_GET E [p] ?config' w3"
    "files w3 CONFIG = Some (File (JSON_stringify E ?config'))"
    "stdout w3 = stdout ?w2" "stderr w3 = stderr ?w2"
    using run_handler [OF f2 assms(7) container_truthy [OF c'] _ _ s2,
        of GET COMMANDS_GET "[p]"]
    by auto
  have "COMMANDS_GET E [p] ?config' w3 = Inr (console_log (stringify_value E (Some v)) w3)"
    using stored_value_resolves [OF assms(3) cp p'(2,1)] by (rule get_prints)
  then have "set_then_get E p raw w = Inr (console_log (stringify_value E (Some v)) w3)"
    using first w3(1) by (simp add: set_then_get_def)
  then show ?thesis using w1(4,5) w3(2,3,4) by (simp add: console_log_def stringify_value_def)
qed

theorem set_get_roundtrip_witness:
  \<open>\<exists>w'. set_then_get sample_env ''a'' ''1'' (configured ''{}'') = Inr w'
      \<and> stdout w' = [''1''] \<and> files w' CONFIG = Some (File ''{"a":1}'')\<close>
proof -
  have h1: "files (configured ''{}'') CONFIG = Some (File ''{}'')" by simp
  have h2: "JSON_parse sample_env ''{}'' = Some (JObj fmempty)" by (simp add: sample_values)
  have h3: "getJsonPart (Some (JObj fmempty)) (butlast (split_dot ''a''))
      = Inr (Some (JObj fmempty))"
    by simp
  have h4: "stores (JObj fmempty) (last (split_dot ''a''))" by simp
  have h5: "JNum (Finite 1) =
      (case JSON_parse sample_env ''1'' of Some parsed \<Rightarrow> parsed | None \<Rightarrow> JStr ''1'')"
    by (simp add: sample_values)
  have h6: "put sample_env (Some (JObj fmempty)) (last (split_dot ''a'')) (JNum (Finite 1))
      = Inr (JObj (fmupd ''a'' (JNum (Finite 1)) fmempty))"
    by simp
  have h7: "JSON_parse sample_env (JSON_stringify sample_env
        (replace_at (JObj fmempty) (butlast (split_dot ''a''))
           (JObj (fmupd ''a'' (JNum (Finite 1)) fmempty))))
      = Some (replace_at (JObj fmempty) (butlast (split_dot ''a''))
           (JObj (fmupd ''a'' (JNum (Finite 1)) fmempty)))"
    by (simp add: sample_values)
  have h8: "files (configured ''{}'') STATS \<in> {None, Some Dir}" by simp
  from set_get_roundtrip [OF h1 h2 h3 h4 h5 h6 h7 h8] show ?thesis
    by (simp add: sample_values) blast
qed

text \<open>
  C2 as stated fails: in the configuration \<^verbatim>\<open>{"a":[]}\<close> the parent of the path
  \<^verbatim>\<open>a.x\<close> is an array, a container; \<^verbatim>\<open>set a.x 1\<close> succeeds, the property \<^verbatim>\<open>x\<close> of
  the array is not written to the file, and \<^verbatim>\<open>get a.x\<close> prints \<^verbatim>\<open>undefined\<close>.
\<close>

theorem set_on_array_name_is_lost:
  \<open>set_then_get sample_env ''a.x'' ''1'' (configured ''{"a":[]}'')
     = Inr ((configured ''{"a":[]}'')\<lparr>stdout := [''undefined''], invoked := [''set'', ''get'']\<rparr>)\<close>
proof -
  let ?doc = "JObj (fmupd ''a'' (JArr []) fmempty)"
  let ?w = \<open>configured ''{"a":[]}''\<close>
  have t: "truthy (Some ?doc)" by simp
  have p: \<open>JSON_parse sample_env ''{"a":[]}'' = Some ?doc\<close> by (simp add: sample_values)
  have \<open>npmStatistic sample_env [SET, ''a.x'', ''1''] ?w
      = COMMANDS_SET sample_env [''a.x'', ''1''] ?doc (?w\<lparr>invoked := invoked ?w @ [SET]\<rparr>)\<close>
    by (rule run_handler_present [OF _ p t]) simp_all
  also have \<open>\<dots> = Inr (?w\<lparr>invoked := [SET]\<rparr>)\<close>
    by (simp add: COMMANDS_SET_def Let_def writeJSON_def writeFileSync_def sample_values
        map_upd_triv)
  finally have first: \<open>npmStatistic sample_env [SET, ''a.x'', ''1''] ?w
      = Inr (?w\<lparr>invoked := [SET]\<rparr>)\<close> .
  have \<open>npmStatistic sample_env [GET, ''a.x''] (?w\<lparr>invoked := [SET]\<rparr>)
      = COMMANDS_GET sample_env [''a.x''] ?doc
          (?w\<lparr>invoked := [SET]\<rparr>\<lparr>invoked := invoked (?w\<lparr>invoked := [SET]\<rparr>) @ [GET]\<rparr>)\<close>
    by (rule run_handler_present [OF _ p t]) simp_all
  also have \<open>\<dots> = Inr (?w\<lparr>stdout := [''undefined''], invoked := [SET, GET]\<rparr>)\<close>
    by (simp add: COMMANDS_GET_def stringify_value_def console_log_def index_eval)
  finally show ?thesis using first by (simp add: set_then_get_def SET_def GET_def)
qed

text \<open>
  C3. When the parent keys of the path do not resolve (\<open>obj = None\<close>), or resolve to a
  value that is not a container, \<^verbatim>\<open>set\<close> prints its diagnostic and returns: nothing is
  assigned and no file is written, so every file is what it was before the call.
\<close>

theorem set_rejects_invalid_target:
  assumes "getJsonPart (Some config) (butlast (split_dot p)) = Inr obj"
    and "\<not> container obj"
  shows "\<exists>w'. COMMANDS_SET E (p # raw # rest) config w = Inr w'
           \<and> stdout w' = stdout w @
               [''Cannot set key '' @ dquote @ last (split_dot p) @ dquote @ '' in ''
                  @ dquote @ join_dot (butlast (split_dot p)) @ dquote @ ''.'']
           \<and> files w' = files w \<and> stderr w' = stderr w \<and> invoked w' = invoked w"
proof -
  have "\<not> (truthy obj \<and> typeof obj = ''object'')"
    using assms(2) container_test [of obj] by simp
  then show ?thesis
    using assms(1) by (simp add: COMMANDS_SET_def Let_def console_log_def)
qed

theorem set_rejects_invalid_target_witness:
  \<open>\<exists>w'. COMMANDS_SET sample_env [''a.b.c'', ''1'']
            (JObj (fmupd ''a'' (JNum (Finite 1)) fmempty)) (configured ''{"a":1}'') = Inr w'
      \<and> stdout w' = [''Cannot set key "c" in "a.b".'']
      \<and> files w' = files (configured ''{"a":1}'')\<close>
  using set_rejects_invalid_target [of "JObj (fmupd ''a'' (JNum (Finite 1)) fmempty)" "''a.b.c''"
      None sample_env "''1''" "[]" "configured ''{\"a\":1}''"]
  by (simp add: configured_def dquote_def) blast

text \<open>
  C4, as amended. Let the text of the configuration file be unparseable, or parse to a
  falsy value (\<^verbatim>\<open>null\<close>, \<^verbatim>\<open>false\<close>, \<^verbatim>\<open>0\<close>, the empty string). When \<^verbatim>\<open>./stats/\<close> is a
  directory or missing, the run reports \<^verbatim>\<open>Wrong config format\<close> and returns: no command
  handler is entered, nothing is printed on the standard output, and the only change to
  the file system is the creation of the missing statistics directory. When
  \<^verbatim>\<open>./stats/\<close> is a regular file, the run ends earlier, with the exception of
  \<^verbatim>\<open>fs.mkdirSync\<close>.
\<close>

theorem falsy_config_aborts:
  assumes "files w CONFIG = Some (File text)"
    and "JSON_parse E text \<in>
           {None, Some JNull, Some (JBool False), Some (JNum (Finite 0)), Some (JStr [])}"
  shows "(files w STATS \<in> {None, Some Dir} \<longrightarrow>
            (\<exists>w'. npmStatistic E args w = Inr w'
               \<and> stderr w' = stderr w @
                   [''Wrong config format (in '' @ dquote @ CONFIG @ dquote @ '').'']
               \<and> stdout w' = stdout w
               \<and> invoked w' = invoked w
               \<and> files w' =
                   (if files w STATS = None then (files w)(STATS \<mapsto> Dir) else files w)))
         \<and> ((\<exists>x. files w STATS = Some (File x)) \<longrightarrow>
               npmStatistic E args w = Inl SystemError)"
proof (intro conjI impI)
  assume d: "files w STATS \<in> {None, Some Dir}"
  let ?w = "if files w STATS = None then w\<lparr>files := (files w)(STATS \<mapsto> Dir)\<rparr> else w"
  have s: "startup E w = Inr ?w" using assms(1) d by (simp add: startup_config_present)
  have "files ?w CONFIG = Some (File text)" using assms(1) by simp
  then have "\<not> truthy (Some (readJSON E CONFIG ?w))" using assms(2) by (rule falsy_config)
  then have "npmStatistic E args w =
      Inr (console_error (''Wrong config format (in '' @ dquote @ CONFIG @ dquote @ '').'') ?w)"
    using s by (simp add: npmStatistic_def Let_def split: prod.splits)
  then show "\<exists>w'. npmStatistic E args w = Inr w'
      \<and> stderr w' = stderr w @
          [''Wrong config format (in '' @ dquote @ CONFIG @ dquote @ '').'']
      \<and> stdout w' = stdout w
      \<and> invoked w' = invoked w
      \<and> files w' = (if files w STATS = None then (files w)(STATS \<mapsto> Dir) else files w)"
    by (simp add: console_error_def)
next
  assume "\<exists>x. files w STATS = Some (File x)"
  then show "npmStatistic E args w = Inl SystemError" using run_stats_file by blast
qed

theorem falsy_config_aborts_witness:
  \<open>(\<exists>w'. npmStatistic sample_env [''set'', ''a'', ''1''] (configured ''0'') = Inr w'
      \<and> stderr w' = [''Wrong config format (in "config.json").'']
      \<and> stdout w' = [] \<and> invoked w' = [] \<and> files w' = files (configured ''0''))
   \<and> npmStatistic sample_env [''set'', ''a'', ''1''] (obstructed ''0'') = Inl SystemError\<close>
proof -
  have h1: "files (configured ''0'') CONFIG = Some (File ''0'')" by simp
  have h2: "JSON_parse sample_env ''0'' \<in>
      {None, Some JNull, Some (JBool False), Some (JNum (Finite 0)), Some (JStr [])}"
    by (simp add: sample_values)
  have h3: "files (obstructed ''0'') CONFIG = Some (File ''0'')" by simp
  from falsy_config_aborts [OF h1 h2, of "[''set'', ''a'', ''1'']"]
    falsy_config_aborts [OF h3 h2, of "[''set'', ''a'', ''1'']"]
  show ?thesis
    by (simp add: dquote_def CONFIG_def)
qed

text \<open>
  C4 as stated fails: the configuration file holds the number 5, which is no object, and
  the handler of \<^verbatim>\<open>get\<close> is entered and prints it.
\<close>

theorem truthy_scalar_config_runs:
  \<open>npmStatistic sample_env [''get''] (configured ''5'')
     = Inr ((configured ''5'')\<lparr>stdout := [''5''], invoked := [''get'']\<rparr>)\<close>
  by (simp add: npmStatistic_def Let_def configured_def startup_def readJSON_cases
      sample_parse_def sample_texts_def COMMANDS_def COMMANDS_GET_def console_log_def
      stringify_value_def sample_stringify_def UPDATE_def GET_def SET_def)

text \<open>
  C5, as amended. \<open>readJSON\<close> returns \<^verbatim>\<open>null\<close> when the file is missing (or is a
  directory) and the same \<^verbatim>\<open>null\<close> when the file holds malformed content; it returns
  the parsed value otherwise. The two failures are not told apart.
\<close>

theorem readJSON_null_on_failure:
  "(files w name = None \<longrightarrow> readJSON E name w = JNull)
   \<and> (files w name = Some Dir \<longrightarrow> readJSON E name w = JNull)
   \<and> (files w name = Some (File text) \<and> JSON_parse E text = None
        \<longrightarrow> readJSON E name w = JNull)
   \<and> (files w name = Some (File text) \<and> JSON_parse E text = Some v
        \<longrightarrow> readJSON E name w = v)"
  by (simp add: readJSON_cases)

theorem readJSON_null_on_failure_witness:
  \<open>readJSON sample_env CONFIG (configured ''{"a":1}'')
     = JObj (fmupd ''a'' (JNum (Finite 1)) fmempty)
   \<and> readJSON sample_env CONFIG (configured ''{"a":'') = JNull
   \<and> readJSON sample_env STATS (configured ''{"a":1}'') = JNull
   \<and> readJSON sample_env CONFIG fresh = JNull\<close>
  using readJSON_null_on_failure [of "configured ''{\"a\":1}''" CONFIG sample_env "''{\"a\":1}''"
      "JObj (fmupd ''a'' (JNum (Finite 1)) fmempty)"]
    readJSON_null_on_failure [of "configured ''{\"a\":''" CONFIG sample_env "''{\"a\":''"]
    readJSON_null_on_failure [of "configured ''{\"a\":1}''" STATS sample_env]
    readJSON_null_on_failure [of fresh CONFIG sample_env]
  by (simp add: configured_def fresh_def sample_parse_def sample_texts_def)

text \<open>
  C5 as stated fails: a missing file and a file with malformed content give the same
  result.
\<close>

theorem readJSON_missing_like_malformed:
  \<open>files fresh CONFIG = None
   \<and> files (configured ''{"a":'') CONFIG = Some (File ''{"a":'')
   \<and> JSON_parse sample_env ''{"a":'' = None
   \<and> readJSON sample_env CONFIG fresh = readJSON sample_env CONFIG (configured ''{"a":'')\<close>
  by (simp add: readJSON_cases configured_def fresh_def sample_parse_def sample_texts_def)

text \<open>
  C6, as amended. \<open>getStatName\<close> is a function of the date read from the clock. For a year
  of four digits, its result is the month counted from 1 and zero-padded to two digits
  (a leading zero for the months 1 to 9, none added for 10 to 12), a dot, the year in
  four digits, and the suffix \<^verbatim>\<open>.json\<close>: \<^verbatim>\<open>MM.YYYY.json\<close>. March 2024 gives
  \<^verbatim>\<open>03.2024.json\<close> and December 2024 gives \<^verbatim>\<open>12.2024.json\<close>.
\<close>

theorem getStatName_format:
  assumes "getMonth now < 12" and "1000 \<le> getFullYear now" and "getFullYear now \<le> 9999"
  shows "\<exists>mm yyyy. getStatName now = mm @ ''.'' @ yyyy @ ''.json''
           \<and> length mm = 2 \<and> length yyyy = 4
           \<and> set (mm @ yyyy) \<subseteq> set ''0123456789''
           \<and> numeral_value mm = getMonth now + 1
           \<and> int (numeral_value yyyy) = getFullYear now
           \<and> (getMonth now + 1 < 10 \<longrightarrow> mm = ''0'' @ decimal (getMonth now + 1))
           \<and> (10 \<le> getMonth now + 1 \<longrightarrow> mm = decimal (getMonth now + 1))"
proof -
  let ?m = "getMonth now + 1"
  let ?mm = "if ?m < 10 then ''0'' @ decimal ?m else decimal ?m"
  let ?yyyy = "decimal (nat (getFullYear now))"
  have name: "getStatName now = ?mm @ ''.'' @ ?yyyy @ ''.json''"
    using assms(2) by (simp add: getStatName_def Let_def integer_string_def)
  have lm: "length ?mm = 2"
    using assms(1) by (simp add: decimal_small length_decimal_2)
  have ly: "length ?yyyy = 4"
    using assms(2,3) by (intro length_decimal_4) simp_all
  have dm: "set ?mm \<subseteq> set ''0123456789''"
    using set_decimal [of ?m] by simp
  have dy: "set ?yyyy \<subseteq> set ''0123456789''" by (rule set_decimal)
  have vm: "numeral_value ?mm = ?m"
    using numeral_value_decimal [of ?m]
    by (simp add: decimal_small numeral_value_def digit_value_digit_of) (simp add: digit_value_def)
  have vy: "int (numeral_value ?yyyy) = getFullYear now"
    using assms(2) by (simp add: numeral_value_decimal)
  show ?thesis
    using name lm ly dm dy vm vy by (intro exI [of _ ?mm] exI [of _ ?yyyy]) simp
qed

theorem getStatName_format_witness:
  "getStatName \<lparr>getFullYear = 2024, getMonth = 2\<rparr> = ''03.2024.json''
   \<and> getStatName \<lparr>getFullYear = 2024, getMonth = 11\<rparr> = ''12.2024.json''"
  using getStatName_format [of "\<lparr>getFullYear = 2024, getMonth = 2\<rparr>"]
    getStatName_format [of "\<lparr>getFullYear = 2024, getMonth = 11\<rparr>"]
  by (simp add: getStatName_def integer_string_def index_eval)

text \<open>
  C6 as stated fails: for March 2024 the result is \<^verbatim>\<open>03.2024.json\<close>, not
  \<^verbatim>\<open>03.2024\<close>.
\<close>

theorem getStatName_has_suffix:
  "getStatName \<lparr>getFullYear = 2024, getMonth = 2\<rparr> = ''03.2024.json''
   \<and> getStatName \<lparr>getFullYear = 2024, getMonth = 2\<rparr> \<noteq> ''03.2024''"
  by (simp add: getStatName_def integer_string_def index_eval)

text \<open>
  C7. When the statistics file of the period does not exist (and the statistics directory,
  which the startup creates, does), \<open>updateCallback\<close> creates the file with the text of
  \<^verbatim>\<open>{packages: []}\<close> before it loads it; the document it loads is that object, and its
  \<^verbatim>\<open>packages\<close> is the empty array. The built-ins are taken to read back the text of
  \<^verbatim>\<open>{packages: []}\<close> as that object.
\<close>

theorem updateCallback_seeds_missing_file:
  assumes "files w (STATS @ getStatName now) = None" and "files w STATS = Some Dir"
    and "JSON_parse E (JSON_stringify E (JObj (fmupd ''packages'' (JArr []) fmempty)))
           = Some (JObj (fmupd ''packages'' (JArr []) fmempty))"
  shows "updateCallback E now res w =
           Inr (JObj (fmupd ''packages'' (JArr []) fmempty), Some (JArr []),
                w\<lparr>files := (files w)(STATS @ getStatName now \<mapsto>
                     File (JSON_stringify E (JObj (fmupd ''packages'' (JArr []) fmempty))))\<rparr>)"
  using assms
  by (simp add: updateCallback_def Let_def accessSync_def writeJSON_def writeFileSync_def
      folder_stat readJSON_cases)

theorem updateCallback_seeds_missing_file_witness:
  \<open>updateCallback sample_env \<lparr>getFullYear = 2024, getMonth = 2\<rparr> () (configured ''{}'')
     = Inr (JObj (fmupd ''packages'' (JArr []) fmempty), Some (JArr []),
            (configured ''{}'')\<lparr>files := [CONFIG \<mapsto> File ''{}'', STATS \<mapsto> Dir,
               ''./stats/03.2024.json'' \<mapsto> File ''{"packages":[]}'']\<rparr>)\<close>
  using updateCallback_seeds_missing_file [of "configured ''{}''"
      "\<lparr>getFullYear = 2024, getMonth = 2\<rparr>" sample_env "()"]
  by (simp add: configured_def sample_parse_def sample_stringify_def sample_texts_def
      getStatName_def integer_string_def index_eval STATS_def CONFIG_def)

text \<open>
  C8, as amended. Take a non-empty command name outside \<^verbatim>\<open>update\<close>, \<^verbatim>\<open>get\<close>,
  \<^verbatim>\<open>set\<close>. When \<^verbatim>\<open>./stats/\<close> is a directory or missing, the run ends after the
  startup with one diagnostic and no command handler is entered: \<^verbatim>\<open>Unknown command\<close>
  when the configuration loads to a truthy value, \<^verbatim>\<open>Wrong config format\<close> otherwise.
  Besides the diagnostic, the startup creates a missing configuration file (with the text
  of \<^verbatim>\<open>{}\<close>, and a notice on the standard output) and a missing statistics directory,
  and nothing else changes; when both exist, nothing but the diagnostic changes. When
  \<^verbatim>\<open>./stats/\<close> is a regular file, the run ends with the exception of \<^verbatim>\<open>fs.mkdirSync\<close>.
\<close>

theorem unknown_command_aborts:
  assumes "command \<noteq> []" and "command \<notin> {UPDATE, GET, SET}"
  shows "(files w STATS \<in> {None, Some Dir} \<longrightarrow>
            (\<exists>w'. startup E w = Inr w'
               \<and> npmStatistic E (command # args) w =
                   Inr (console_error
                          (if truthy (Some (readJSON E CONFIG w'))
                           then ''Unknown command: '' @ dquote @ command @ dquote @ ''.''
                           else ''Wrong config format (in '' @ dquote @ CONFIG @ dquote
                                  @ '').'') w')
               \<and> invoked w' = invoked w
               \<and> stderr w' = stderr w
               \<and> stdout w' =
                   (if files w CONFIG = None
                    then stdout w @ [''Cannot find config ('' @ dquote @ CONFIG @ dquote
                                       @ ''). Create new empty config.'']
                    else stdout w)
               \<and> files w' =
                   (\<lambda>name. if name = CONFIG \<and> files w CONFIG = None
                             then Some (File (JSON_stringify E (JObj fmempty)))
                           else if name = STATS \<and> files w STATS = None then Some Dir
                           else files w name)
               \<and> (files w CONFIG \<noteq> None \<and> files w STATS \<noteq> None \<longrightarrow> w' = w)))
         \<and> ((\<exists>x. files w STATS = Some (File x)) \<longrightarrow>
               npmStatistic E (command # args) w = Inl SystemError)"
proof (intro conjI impI)
  assume d: "files w STATS \<in> {None, Some Dir}"
  let ?w1 = "if files w CONFIG = None
             then w\<lparr>files := (files w)(CONFIG \<mapsto> File (JSON_stringify E (JObj fmempty))),
                    stdout := stdout w @
                      [''Cannot find config ('' @ dquote @ CONFIG @ dquote
                         @ ''). Create new empty config.'']\<rparr>
             else w"
  let ?w' = "if files w STATS = None then ?w1\<lparr>files := (files ?w1)(STATS \<mapsto> Dir)\<rparr> else ?w1"
  have s: "startup E w = Inr ?w'"
    using d by (auto simp add: startup_cases Let_def)
  have run: "npmStatistic E (command # args) w =
      Inr (console_error
             (if truthy (Some (readJSON E CONFIG ?w'))
              then ''Unknown command: '' @ dquote @ command @ dquote @ ''.''
              else ''Wrong config format (in '' @ dquote @ CONFIG @ dquote @ '').'') ?w')"
    using assms by (simp add: npmStatistic_def Let_def s del: readJSON_cases)
  have i: "invoked ?w' = invoked w" and e: "stderr ?w' = stderr w" by simp_all
  have o: "stdout ?w' =
      (if files w CONFIG = None
       then stdout w @ [''Cannot find config ('' @ dquote @ CONFIG @ dquote
                          @ ''). Create new empty config.'']
       else stdout w)"
    by simp
  have f: "files ?w' =
      (\<lambda>name. if name = CONFIG \<and> files w CONFIG = None
                then Some (File (JSON_stringify E (JObj fmempty)))
              else if name = STATS \<and> files w STATS = None then Some Dir
              else files w name)"
    by (auto simp add: fun_eq_iff)
  have p: "files w CONFIG \<noteq> None \<and> files w STATS \<noteq> None \<longrightarrow> ?w' = w" by simp
  from s run i e o f p
  show "\<exists>w'. startup E w = Inr w'
      \<and> npmStatistic E (command # args) w =
          Inr (console_error
                 (if truthy (Some (readJSON E CONFIG w'))
                  then ''Unknown command: '' @ dquote @ command @ dquote @ ''.''
                  else ''Wrong config format (in '' @ dquote @ CONFIG @ dquote
                         @ '').'') w')
      \<and> invoked w' = invoked w
      \<and> stderr w' = stderr w
      \<and> stdout w' =
          (if files w CONFIG = None
           then stdout w @ [''Cannot find config ('' @ dquote @ CONFIG @ dquote
                              @ ''). Create new empty config.'']
           else stdout w)
      \<and> files w' =
          (\<lambda>name. if name = CONFIG \<and> files w CONFIG = None
                    then Some (File (JSON_stringify E (JObj fmempty)))
                  else if name = STATS \<and> files w STATS = None then Some Dir
                  else files w name)
      \<and> (files w CONFIG \<noteq> None \<and> files w STATS \<noteq> None \<longrightarrow> w' = w)"
    by (intro exI [of _ ?w']) (intro conjI)
next
  assume "\<exists>x. files w STATS = Some (File x)"
  then show "npmStatistic E (command # args) w = Inl SystemError"
    using run_stats_file by blast
qed

theorem unknown_command_aborts_witness:
  \<open>npmStatistic sample_env [''remove'', ''a''] (configured ''{"a":1}'')
     = Inr ((configured ''{"a":1}'')\<lparr>stderr := [''Unknown command: "remove".'']\<rparr>)
   \<and> npmStatistic sample_env [''remove'', ''a''] (obstructed ''{"a":1}'') = Inl SystemError\<close>
proof -
  have h1: "''remove'' \<noteq> []" by simp
  have h2: "''remove'' \<notin> {UPDATE, GET, SET}" by (simp add: UPDATE_def GET_def SET_def)
  have t: \<open>truthy (Some (readJSON sample_env CONFIG (configured ''{"a":1}'')))\<close>
    by (simp add: readJSON_cases sample_values)
  from unknown_command_aborts [OF h1 h2, of \<open>configured ''{"a":1}''\<close> sample_env "[''a'']"]
  obtain w' where w': \<open>npmStatistic sample_env [''remove'', ''a''] (configured ''{"a":1}'')
        = Inr (console_error
                 (if truthy (Some (readJSON sample_env CONFIG w'))
                  then ''Unknown command: '' @ dquote @ ''remove'' @ dquote @ ''.''
                  else ''Wrong config format (in '' @ dquote @ CONFIG @ dquote @ '').'') w')\<close>
    \<open>w' = configured ''{"a":1}''\<close>
    by auto
  moreover from unknown_command_aborts [OF h1 h2, of \<open>obstructed ''{"a":1}''\<close> sample_env
      "[''a'']"]
  have \<open>npmStatistic sample_env [''remove'', ''a''] (obstructed ''{"a":1}'') = Inl SystemError\<close>
    by simp
  ultimately show ?thesis
    using t by (simp add: console_error_def dquote_def)
qed

text \<open>
  C8 as stated fails: in a directory without configuration file and statistics directory,
  the unknown command \<^verbatim>\<open>remove\<close> leaves a new configuration file and a new directory
  behind; the empty command name, which is none of the three, enters the handler of
  \<^verbatim>\<open>update\<close>; and with the configuration \<^verbatim>\<open>null\<close> the diagnostic of the unknown
  command \<^verbatim>\<open>remove\<close> is \<^verbatim>\<open>Wrong config format\<close>.
\<close>

theorem unknown_command_creates_config:
  \<open>npmStatistic sample_env [''remove''] fresh
     = Inr \<lparr>files = [CONFIG \<mapsto> File ''{}'', STATS \<mapsto> Dir],
            stdout = [''Cannot find config ("config.json"). Create new empty config.''],
            stderr = [''Unknown command: "remove".''],
            invoked = []\<rparr>
   \<and> npmStatistic sample_env [[]] (configured ''{}'')
     = Inr ((configured ''{}'')\<lparr>invoked := [''update'']\<rparr>)
   \<and> npmStatistic sample_env [''remove''] (configured ''null'')
     = Inr ((configured ''null'')\<lparr>stderr := [''Wrong config format (in "config.json").'']\<rparr>)\<close>
proof -
  have \<open>npmStatistic sample_env [''remove''] fresh
     = Inr \<lparr>files = [CONFIG \<mapsto> File ''{}'', STATS \<mapsto> Dir],
            stdout = [''Cannot find config ("config.json"). Create new empty config.''],
            stderr = [''Unknown command: "remove".''],
            invoked = []\<rparr>\<close>
    by (simp add: npmStatistic_def Let_def fresh_def startup_def mkdirSync_def
        writeJSON_def writeFileSync_def console_log_def console_error_def readJSON_cases
        sample_parse_def sample_stringify_def sample_texts_def dquote_def COMMANDS_def
        UPDATE_def GET_def SET_def)
      (simp add: CONFIG_def)
  moreover have \<open>npmStatistic sample_env [[]] (configured ''{}'')
     = Inr ((configured ''{}'')\<lparr>invoked := [''update'']\<rparr>)\<close>
    by (simp add: npmStatistic_def Let_def configured_def startup_def
        readJSON_cases sample_parse_def sample_texts_def COMMANDS_UPDATE_def COMMANDS_def
        UPDATE_def GET_def SET_def)
  moreover have \<open>npmStatistic sample_env [''remove''] (configured ''null'')
     = Inr ((configured ''null'')\<lparr>stderr := [''Wrong config format (in "config.json").'']\<rparr>)\<close>
    by (simp add: npmStatistic_def Let_def startup_present readJSON_cases sample_parse_def
        sample_texts_def console_error_def dquote_def)
      (simp add: CONFIG_def)
  ultimately show ?thesis by simp
qed



text \<open>
  C10, as amended. Let the parent keys of the path \<open>p\<close> resolve to an object, or to an
  array with the final key other than \<^verbatim>\<open>length\<close> and other than an array index at or
  beyond the length of the array. Then \<^verbatim>\<open>set\<close> writes a document in which every path
  that is neither a prefix nor an extension of \<open>p\<close> resolves to the value it had before.
\<close>

theorem set_changes_only_assigned_path:
  assumes "getJsonPart (Some config) (butlast (split_dot p)) = Inr (Some parent)"
    and "in_place parent (last (split_dot p))"
    and "\<not> prefix q (split_dot p)" and "\<not> prefix (split_dot p) q"
  shows "\<exists>config'. COMMANDS_SET E (p # raw # rest) config w = writeJSON E CONFIG config' w
           \<and> getJsonPart (Some config') q = getJsonPart (Some config) q"
proof -
  let ?keys = "butlast (split_dot p)" and ?key = "last (split_dot p)"
  let ?v = "case JSON_parse E raw of Some parsed \<Rightarrow> parsed | None \<Rightarrow> JStr raw"
  have cp: "container (Some parent)" using assms(2) by (rule in_place_container)
  obtain parent' where p': "put E (Some parent) ?key ?v = Inr parent'"
    using put_in_place_succeeds [OF assms(2)] by blast
  have same: "own parent' k = own parent k" if "k \<noteq> ?key" for k
    using assms(2) p' that by (rule put_in_place_others)
  have cp': "container (Some parent')"
    using assms(2) p' by (rule put_in_place_container)
  have q1: "\<not> prefix q (?keys @ [?key])" and q2: "\<not> prefix (?keys @ [?key]) q"
    using assms(3,4) by simp_all
  have "getJsonPart (Some (replace_at config ?keys parent')) q = getJsonPart (Some config) q"
    using assms(1) cp cp' same q1 q2 by (rule replace_at_frame)
  moreover have "COMMANDS_SET E (p # raw # rest) config w
      = writeJSON E CONFIG (replace_at config ?keys parent') w"
    using set_reaches_assignment [OF assms(1) cp, of E raw rest w] p' by simp
  ultimately show ?thesis by blast
qed

theorem set_changes_only_assigned_path_witness:
  \<open>\<exists>config'. COMMANDS_SET sample_env [''b'', ''1'']
        (JObj (fmupd ''a'' (JArr [JNum (Finite 1), JNum (Finite 2)]) fmempty))
        (configured ''{"a":[1,2]}'')
      = writeJSON sample_env CONFIG config' (configured ''{"a":[1,2]}'')
    \<and> getJsonPart (Some config') [''a'', ''0''] = Inr (Some (JNum (Finite 1)))
    \<and> writeJSON sample_env CONFIG config' (configured ''{"a":[1,2]}'')
        = Inr (configured ''{"a":[1,2],"b":1}'')\<close>
proof -
  let ?doc = "JObj (fmupd ''a'' (JArr [JNum (Finite 1), JNum (Finite 2)]) fmempty)"
  have h1: "getJsonPart (Some ?doc) (butlast (split_dot ''b'')) = Inr (Some ?doc)" by simp
  have h2: "in_place ?doc (last (split_dot ''b''))" by simp
  have h3: "\<not> prefix [''a'', ''0''] (split_dot ''b'')" by simp
  have h4: "\<not> prefix (split_dot ''b'') [''a'', ''0'']" by simp
  have v: "getJsonPart (Some ?doc) [''a'', ''0''] = Inr (Some (JNum (Finite 1)))"
    by (simp add: index_eval)
  have e: \<open>COMMANDS_SET sample_env [''b'', ''1''] ?doc (configured ''{"a":[1,2]}'')
      = Inr (configured ''{"a":[1,2],"b":1}'')\<close>
    by (simp add: COMMANDS_SET_def Let_def sample_values writeJSON_def writeFileSync_def
        sample_stringify_def sample_texts_def configured_rewrite)
  from set_changes_only_assigned_path [OF h1 h2 h3 h4, of sample_env "''1''" "[]"
      \<open>configured ''{"a":[1,2]}''\<close>]
  show ?thesis unfolding v e by metis
qed

text \<open>
  C10 as stated fails: in the configuration \<^verbatim>\<open>{"a":[1,2]}\<close>, \<^verbatim>\<open>set a.length 0\<close>
  succeeds and writes \<^verbatim>\<open>{"a":[]}\<close>; the path \<^verbatim>\<open>a.0\<close>, which is not the assigned
  path, resolved to 1 before and does not resolve in the document written. So does the
  value at \<^verbatim>\<open>a\<close>, a prefix of the assigned path, change, as it must.
\<close>

theorem set_length_drops_elements:
  \<open>COMMANDS_SET sample_env [''a.length'', ''0'']
       (JObj (fmupd ''a'' (JArr [JNum (Finite 1), JNum (Finite 2)]) fmempty))
       (configured ''{"a":[1,2]}'')
     = Inr (configured ''{"a":[]}'')
   \<and> getJsonPart (Some (JObj (fmupd ''a'' (JArr [JNum (Finite 1), JNum (Finite 2)]) fmempty)))
       [''a'', ''0''] = Inr (Some (JNum (Finite 1)))
   \<and> getJsonPart (Some (readJSON sample_env CONFIG (configured ''{"a":[]}''))) [''a'', ''0'']
       = Inr None
   \<and> getJsonPart (Some (JObj (fmupd ''a'' (JArr [JNum (Finite 1), JNum (Finite 2)]) fmempty)))
       [''a''] = Inr (Some (JArr [JNum (Finite 1), JNum (Finite 2)]))
   \<and> getJsonPart (Some (readJSON sample_env CONFIG (configured ''{"a":[]}''))) [''a'']
       = Inr (Some (JArr []))\<close>
proof -
  let ?doc = "JObj (fmupd ''a'' (JArr [JNum (Finite 1), JNum (Finite 2)]) fmempty)"
  have "put sample_env (Some (JArr [JNum (Finite 1), JNum (Finite 2)])) ''length''
      (JNum (Finite 0)) = Inr (JArr [])"
    by (simp add: ToNumber_def array_length_def resize_def)
  then have \<open>COMMANDS_SET sample_env [''a.length'', ''0''] ?doc (configured ''{"a":[1,2]}'')
      = Inr (configured ''{"a":[]}'')\<close>
    by (simp add: COMMANDS_SET_def Let_def sample_values writeJSON_def writeFileSync_def
        configured_rewrite)
  moreover have "getJsonPart (Some ?doc) [''a'', ''0''] = Inr (Some (JNum (Finite 1)))"
    by (simp add: index_eval)
  moreover have \<open>getJsonPart (Some (readJSON sample_env CONFIG (configured ''{"a":[]}'')))
      [''a'', ''0''] = Inr None\<close>
    by (simp add: readJSON_cases sample_values index_eval)
  moreover have "getJsonPart (Some ?doc) [''a'']
      = Inr (Some (JArr [JNum (Finite 1), JNum (Finite 2)]))"
    by simp
  moreover have \<open>getJsonPart (Some (readJSON sample_env CONFIG (configured ''{"a":[]}'')))
      [''a''] = Inr (Some (JArr []))\<close>
    by (simp add: readJSON_cases sample_values)
  ultimately show ?thesis by simp
qed

end
